theory Spec2Isabelle
  imports Main "HOL-Library.Word"
begin

unbundle bit_operations_syntax

section \<open>Relayer discovery: the wire types\<close>

text \<open>
  The relayer-discovery document declares the data a destination program publishes in its
  \<open>transaction_pda\<close>:
  \<^verbatim>\<open>
  enum RelayerData { Bytes(Vec<u8>), Message() }
  enum RelayerAccount { Account(AccountMeta), IncomingMessage(), MessagePayload(), Payer(Uint64) }
  struct RelayerInstruction { program: Pubkey, accounts: Vec<AccountMeta>, data: Vec<RelayerData> }
  struct RelayerTransaction { is_final: bool, instructions: Vec<RelayerInstruction> }
  \<close>
  The declaration types \<open>accounts\<close> as \<open>Vec<AccountMeta>\<close>, but the prose under it
  ("each entry of accounts is either a hardcoded account, ... or a payer account") and every
  use in the document (\<open>accounts: [RelayerAccount::MessagePayload()]\<close>, the vector built in
  \<open>relayer_discovery_build_transaction_2\<close>) put \<open>RelayerAccount\<close> values there; the field
  is modelled with the type of its uses.

  A \<open>Pubkey\<close> is an array of 32 bytes. It is modelled as a byte list; the predicates
  \<open>valid_*\<close> below say that it has 32 elements. \<open>AccountMeta\<close> is the Solana SDK's
  struct of a public key and the two flags.
\<close>

type_synonym byte = "8 word"

type_synonym Pubkey = "byte list"

record AccountMeta =
  pubkey :: Pubkey
  is_signer :: bool
  is_writable :: bool

datatype RelayerData =
  Bytes "byte list"
| Message

datatype RelayerAccount =
  Account AccountMeta
| IncomingMessage
| MessagePayload
| Payer "64 word"

record RelayerInstruction =
  program :: Pubkey
  accounts :: "RelayerAccount list"
  data :: "RelayerData list"

record RelayerTransaction =
  is_final :: bool
  instructions :: "RelayerInstruction list"

text \<open>
  The failures of a relay attempt. The document names none of them; the names are the
  specification's.
\<close>

datatype error =
  DecodeError
| AccountNotFoundError
| SimulationFailure
| MaxRoundsExceeded
| FundingMismatch
| ExecutionFailure

section \<open>The wire codec\<close>

text \<open>
  The document says only that the account holds "the Borsh serialised data of the
  RelayerTransaction struct"; the serialiser itself is derived by the Borsh library. The
  codec below follows the layout rules of the specification (section 4.1) over the types above.
\<close>

text \<open>Little-endian integers of a fixed number of bytes.\<close>

fun enc_le :: "nat \<Rightarrow> nat \<Rightarrow> byte list" where
  "enc_le 0 x = []"
| "enc_le (Suc n) x = word_of_nat (x mod 256) # enc_le n (x div 256)"

fun dec_le :: "byte list \<Rightarrow> nat" where
  "dec_le [] = 0"
| "dec_le (b # bs) = unat b + 256 * dec_le bs"

text \<open>Modelled from the spec: the valid values, those the encoder can represent: a fixed-size
  byte array has its 32 bytes, and a sequence's length fits its 32-bit prefix.\<close>

definition valid_Pubkey :: "Pubkey \<Rightarrow> bool" where
  "valid_Pubkey k = (length k = 32)"

definition valid_len :: "'a list \<Rightarrow> bool" where
  "valid_len xs = (length xs < 2 ^ 32)"

fun valid_RelayerData :: "RelayerData \<Rightarrow> bool" where
  "valid_RelayerData (Bytes bs) = valid_len bs"
| "valid_RelayerData Message = True"

fun valid_RelayerAccount :: "RelayerAccount \<Rightarrow> bool" where
  "valid_RelayerAccount (Account m) = valid_Pubkey (pubkey m)"
| "valid_RelayerAccount IncomingMessage = True"
| "valid_RelayerAccount MessagePayload = True"
| "valid_RelayerAccount (Payer amount) = True"

definition valid_RelayerInstruction :: "RelayerInstruction \<Rightarrow> bool" where
  "valid_RelayerInstruction i =
     (valid_Pubkey (program i) \<and>
      valid_len (accounts i) \<and> list_all valid_RelayerAccount (accounts i) \<and>
      valid_len (data i) \<and> list_all valid_RelayerData (data i))"

definition valid_RelayerTransaction :: "RelayerTransaction \<Rightarrow> bool" where
  "valid_RelayerTransaction t =
     (valid_len (instructions t) \<and> list_all valid_RelayerInstruction (instructions t))"

text \<open>Modelled from the spec: the encoders of the parts of a descriptor, which the
  sources leave to the Borsh library. Booleans are one byte (0/1); a sequence is a
  little-endian 32-bit length prefix followed by its elements; a tagged union is a one-byte
  discriminant in declaration order followed by the variant's payload; a fixed-size byte
  array is written verbatim.\<close>

definition enc_bool :: "bool \<Rightarrow> byte list" where
  "enc_bool b = [if b then 1 else 0]"

definition enc_u32 :: "nat \<Rightarrow> byte list" where
  "enc_u32 n = enc_le 4 n"

definition enc_u64 :: "64 word \<Rightarrow> byte list" where
  "enc_u64 w = enc_le 8 (unat w)"

definition enc_vec :: "('a \<Rightarrow> byte list) \<Rightarrow> 'a list \<Rightarrow> byte list" where
  "enc_vec enc xs = enc_u32 (length xs) @ concat (map enc xs)"

definition enc_AccountMeta :: "AccountMeta \<Rightarrow> byte list" where
  "enc_AccountMeta m = pubkey m @ enc_bool (is_signer m) @ enc_bool (is_writable m)"

fun enc_RelayerData :: "RelayerData \<Rightarrow> byte list" where
  "enc_RelayerData (Bytes bs) = 0 # enc_vec (\<lambda>b. [b]) bs"
| "enc_RelayerData Message = [1]"

fun enc_RelayerAccount :: "RelayerAccount \<Rightarrow> byte list" where
  "enc_RelayerAccount (Account m) = 0 # enc_AccountMeta m"
| "enc_RelayerAccount IncomingMessage = [1]"
| "enc_RelayerAccount MessagePayload = [2]"
| "enc_RelayerAccount (Payer amount) = 3 # enc_u64 amount"

definition enc_RelayerInstruction :: "RelayerInstruction \<Rightarrow> byte list" where
  "enc_RelayerInstruction i =
     program i @ enc_vec enc_RelayerAccount (accounts i) @ enc_vec enc_RelayerData (data i)"

text \<open>Modelled from the spec: \<open>encode(DiscoveryDescriptor) -> bytes\<close>, missing from the
  sources like its parts above: the \<open>is_final\<close> byte, then the sequence of instructions.\<close>

definition encode :: "RelayerTransaction \<Rightarrow> byte list" where
  "encode t = enc_bool (is_final t) @ enc_vec enc_RelayerInstruction (instructions t)"

text \<open>Modelled from the spec: the readers of the parts of a descriptor, missing from the
  sources like the encoders. A reader takes the input and returns the value
  read together with the rest of the input, or \<open>None\<close>: when the input ends early, when a
  boolean is not 0 or 1, when a discriminant is not one of the declared ones. A sequence
  reads its 32-bit count and then that many elements, so a count the remaining input cannot
  supply ends in the first case.\<close>

type_synonym 'a reader = "byte list \<Rightarrow> ('a \<times> byte list) option"

definition dec_fixed :: "nat \<Rightarrow> (byte list) reader" where
  "dec_fixed n bs = (if length bs < n then None else Some (take n bs, drop n bs))"

fun dec_u8 :: "byte reader" where
  "dec_u8 [] = None"
| "dec_u8 (b # bs) = Some (b, bs)"

fun dec_bool :: "bool reader" where
  "dec_bool [] = None"
| "dec_bool (b # bs) =
     (if b = 0 then Some (False, bs) else if b = 1 then Some (True, bs) else None)"

definition dec_u32 :: "nat reader" where
  "dec_u32 bs = (case dec_fixed 4 bs of None \<Rightarrow> None | Some (x, r) \<Rightarrow> Some (dec_le x, r))"

definition dec_u64 :: "(64 word) reader" where
  "dec_u64 bs =
     (case dec_fixed 8 bs of None \<Rightarrow> None | Some (x, r) \<Rightarrow> Some (word_of_nat (dec_le x), r))"

fun dec_seq :: "'a reader \<Rightarrow> nat \<Rightarrow> ('a list) reader" where
  "dec_seq p 0 bs = Some ([], bs)"
| "dec_seq p (Suc n) bs =
     (case p bs of
        None \<Rightarrow> None
      | Some (x, r) \<Rightarrow>
          (case dec_seq p n r of None \<Rightarrow> None | Some (xs, r') \<Rightarrow> Some (x # xs, r')))"

definition dec_vec :: "'a reader \<Rightarrow> ('a list) reader" where
  "dec_vec p bs = (case dec_u32 bs of None \<Rightarrow> None | Some (n, r) \<Rightarrow> dec_seq p n r)"

definition dec_AccountMeta :: "AccountMeta reader" where
  "dec_AccountMeta bs =
     (case dec_fixed 32 bs of
        None \<Rightarrow> None
      | Some (k, r) \<Rightarrow>
          (case dec_bool r of
             None \<Rightarrow> None
           | Some (s, r') \<Rightarrow>
               (case dec_bool r' of
                  None \<Rightarrow> None
                | Some (w, r'') \<Rightarrow>
                    Some (\<lparr>pubkey = k, is_signer = s, is_writable = w\<rparr>, r''))))"

fun dec_RelayerData :: "RelayerData reader" where
  "dec_RelayerData [] = None"
| "dec_RelayerData (t # bs) =
     (if t = 0 then
        (case dec_vec dec_u8 bs of None \<Rightarrow> None | Some (x, r) \<Rightarrow> Some (Bytes x, r))
      else if t = 1 then Some (Message, bs)
      else None)"

fun dec_RelayerAccount :: "RelayerAccount reader" where
  "dec_RelayerAccount [] = None"
| "dec_RelayerAccount (t # bs) =
     (if t = 0 then
        (case dec_AccountMeta bs of None \<Rightarrow> None | Some (m, r) \<Rightarrow> Some (Account m, r))
      else if t = 1 then Some (IncomingMessage, bs)
      else if t = 2 then Some (MessagePayload, bs)
      else if t = 3 then
        (case dec_u64 bs of None \<Rightarrow> None | Some (a, r) \<Rightarrow> Some (Payer a, r))
      else None)"

definition dec_RelayerInstruction :: "RelayerInstruction reader" where
  "dec_RelayerInstruction bs =
     (case dec_fixed 32 bs of
        None \<Rightarrow> None
      | Some (p, r) \<Rightarrow>
          (case dec_vec dec_RelayerAccount r of
             None \<Rightarrow> None
           | Some (as, r') \<Rightarrow>
               (case dec_vec dec_RelayerData r' of
                  None \<Rightarrow> None
                | Some (ds, r'') \<Rightarrow>
                    Some (\<lparr>program = p, accounts = as, data = ds\<rparr>, r''))))"

definition dec_RelayerTransaction :: "RelayerTransaction reader" where
  "dec_RelayerTransaction bs =
     (case dec_bool bs of
        None \<Rightarrow> None
      | Some (f, r) \<Rightarrow>
          (case dec_vec dec_RelayerInstruction r of
             None \<Rightarrow> None
           | Some (insts, r') \<Rightarrow> Some (\<lparr>is_final = f, instructions = insts\<rparr>, r')))"

text \<open>Modelled from the spec: \<open>decode(bytes) -> DiscoveryDescriptor\<close>, missing from the
  sources: the descriptor at the front of the input, or \<open>DecodeError\<close>. Section 4.1 has it
  fail "on truncated input, an unrecognized discriminant, or a length prefix exceeding
  remaining input", which are the failures of the readers; input left over after the
  descriptor is not among them. What it returns is a \<open>DiscoveryDescriptor\<close>, and by
  section 3 "a decoded descriptor must contain at least one instruction": a descriptor
  read with no instruction is malformed and is not returned.\<close>

definition decode :: "byte list \<Rightarrow> error + RelayerTransaction" where
  "decode bs =
     (case dec_RelayerTransaction bs of
        None \<Rightarrow> Inl DecodeError
      | Some (t, r) \<Rightarrow> if instructions t = [] then Inl DecodeError else Inr t)"

section \<open>Inputs for the properties of the codec\<close>

text \<open>
  The positions of an input at which a reader expects the next element: the bytes of a
  descriptor that announces \<open>n\<close> instructions and holds the instructions \<open>pre\<close>, then
  \<open>rest\<close>; the bytes of an instruction that announces \<open>k\<close> accounts and holds the accounts
  \<open>as\<close>, then \<open>rest\<close>; and the bytes of an instruction with its accounts \<open>as\<close> that
  announces \<open>m\<close> data chunks and holds the chunks \<open>ds\<close>, then \<open>rest\<close>.
\<close>

definition at_instruction :: "bool \<Rightarrow> nat \<Rightarrow> RelayerInstruction list \<Rightarrow> byte list \<Rightarrow> byte list" where
  "at_instruction f n pre rest =
     enc_bool f @ enc_u32 n @ concat (map enc_RelayerInstruction pre) @ rest"

definition at_account :: "Pubkey \<Rightarrow> nat \<Rightarrow> RelayerAccount list \<Rightarrow> byte list \<Rightarrow> byte list" where
  "at_account prog k as rest = prog @ enc_u32 k @ concat (map enc_RelayerAccount as) @ rest"

definition at_data ::
  "Pubkey \<Rightarrow> RelayerAccount list \<Rightarrow> nat \<Rightarrow> RelayerData list \<Rightarrow> byte list \<Rightarrow> byte list" where
  "at_data prog as m ds rest =
     prog @ enc_vec enc_RelayerAccount as @ enc_u32 m @ concat (map enc_RelayerData ds) @ rest"

text \<open>What a reader does when more input follows, and whether it uses up input.\<close>

definition reader_stable :: "'a reader \<Rightarrow> bool" where
  "reader_stable p = (\<forall>bs x r e. p bs = Some (x, r) \<longrightarrow> p (bs @ e) = Some (x, r @ e))"

definition consuming :: "'a reader \<Rightarrow> bool" where
  "consuming p = (\<forall>bs x r. p bs = Some (x, r) \<longrightarrow> length r < length bs)"

section \<open>Converting a relayer instruction into a regular instruction\<close>

text \<open>
  The document: "Each \<open>RelayerInstruction\<close> can be converted into a regular \<open>Instruction\<close>
  by doing the following conversions:
  \<^item> Each entry of \<open>accounts\<close> is either a hardcoded account, the \<open>system_account\<close>, the
    \<open>incoming_message_pda\<close>, the \<open>message_payload_pda\<close> or a \<open>payer\<close> account, with the
    specified \<open>lamports\<close>. These lamports are subtracted from the gas offered for the
    transaction.
  \<^item> \<open>data\<close> is converted to \<open>Vec<u8>\<close> by concatenating each of its elements together, with
    \<open>Bytes\<close> just being vectors, and \<open>Message\<close> being the Borsh serialized version of the
    \<open>Message\<close> to be executed."

  A regular instruction is the Solana SDK's \<open>Instruction\<close>: the program, the account metas
  and the data bytes. What the relayer knows about the message it relays is collected in a
  record: its payer, the two accounts of the message with the flags it passes them with,
  and the serialised \<open>Message\<close> (its serialiser belongs to another crate; the bytes are taken
  as given). The payer is passed as a signer (step 4 of the relayer), and writable, since
  the lamports requested from it are spent by the program.
\<close>

record Instruction =
  program_id :: Pubkey
  accounts_meta :: "AccountMeta list"
  data_bytes :: "byte list"

record RelayContext =
  payer :: Pubkey
  incoming_message_pda :: AccountMeta
  message_payload_pda :: AccountMeta
  message :: "byte list"

fun convert_account :: "RelayContext \<Rightarrow> RelayerAccount \<Rightarrow> AccountMeta" where
  "convert_account c (Account m) = m"
| "convert_account c IncomingMessage = incoming_message_pda c"
| "convert_account c MessagePayload = message_payload_pda c"
| "convert_account c (Payer lamports) =
     \<lparr>pubkey = payer c, is_signer = True, is_writable = True\<rparr>"

fun convert_data :: "RelayContext \<Rightarrow> RelayerData \<Rightarrow> byte list" where
  "convert_data c (Bytes bs) = bs"
| "convert_data c Message = message c"

definition convert_instruction :: "RelayContext \<Rightarrow> RelayerInstruction \<Rightarrow> Instruction" where
  "convert_instruction c i =
     \<lparr>program_id = program i,
      accounts_meta = map (convert_account c) (accounts i),
      data_bytes = concat (map (convert_data c) (data i))\<rparr>"

definition convert_transaction :: "RelayContext \<Rightarrow> RelayerTransaction \<Rightarrow> Instruction list" where
  "convert_transaction c t = map (convert_instruction c) (instructions t)"

text \<open>The lamports an entry of \<open>accounts\<close> specifies: those of a payer entry, none otherwise.\<close>

fun requested_lamports :: "RelayerAccount \<Rightarrow> nat" where
  "requested_lamports (Payer lamports) = unat lamports"
| "requested_lamports (Account m) = 0"
| "requested_lamports IncomingMessage = 0"
| "requested_lamports MessagePayload = 0"

text \<open>Modelled from the spec: the account resolver of section 4.2, which the document does
  not have as a function. It returns the concrete account and threads the accumulator of
  the resolution attempt: \<open>Payer(amount)\<close> "records \<open>amount\<close> into an accumulator owned by the
  current resolution attempt". The materializer (section 4.3) resolves every account in
  order; doing so for every instruction of a final descriptor, from an accumulator of 0,
  gives the funding requirement.\<close>

definition resolve_account :: "RelayContext \<Rightarrow> RelayerAccount \<Rightarrow> nat \<Rightarrow> AccountMeta \<times> nat" where
  "resolve_account c a acc = (convert_account c a, acc + requested_lamports a)"

fun resolve_accounts :: "RelayContext \<Rightarrow> RelayerAccount list \<Rightarrow> nat \<Rightarrow> AccountMeta list \<times> nat" where
  "resolve_accounts c [] acc = ([], acc)"
| "resolve_accounts c (a # as) acc =
     (case resolve_account c a acc of
        (m, acc') \<Rightarrow> (case resolve_accounts c as acc' of (ms, acc'') \<Rightarrow> (m # ms, acc'')))"

definition materialize :: "RelayContext \<Rightarrow> RelayerInstruction \<Rightarrow> nat \<Rightarrow> Instruction \<times> nat" where
  "materialize c i acc =
     (case resolve_accounts c (accounts i) acc of
        (ms, acc') \<Rightarrow>
          (\<lparr>program_id = program i, accounts_meta = ms,
            data_bytes = concat (map (convert_data c) (data i))\<rparr>, acc'))"

fun materialize_all :: "RelayContext \<Rightarrow> RelayerInstruction list \<Rightarrow> nat \<Rightarrow> Instruction list \<times> nat" where
  "materialize_all c [] acc = ([], acc)"
| "materialize_all c (i # is) acc =
     (case materialize c i acc of
        (x, acc') \<Rightarrow> (case materialize_all c is acc' of (xs, acc'') \<Rightarrow> (x # xs, acc'')))"

definition funding_requirement :: "RelayContext \<Rightarrow> RelayerTransaction \<Rightarrow> nat" where
  "funding_requirement c t = snd (materialize_all c (instructions t) 0)"

section \<open>The relayer\<close>

text \<open>
  The document: "To figure out what to call the relayer needs to obtain this data and then
  run the following logic, simulating transactions when needed:
  \<^verbatim>\<open>
  while(!relayer_transaction_is_final) {
      relayer_transaction = relayer_trnasaction.simulate().return_data.decode()
  }
  relayer_transaction.execute()
  \<close>"
  The node's \<open>simulateTransaction\<close> is a parameter: it takes the converted instructions and
  gives the return data, or nothing when the simulation fails. \<open>next_transaction\<close> is the
  right-hand side of the loop's assignment.

  The loop has no bound, so it is a partial function: where it runs forever its value is
  \<open>None\<close>. The document keeps no count; the argument \<open>rounds\<close> is added to count the descriptors
  decoded so far, and is returned with the final descriptor. The relayer enters the loop
  with the descriptor it parsed from the account at \<open>address\<close>, that of the
  \<open>transaction_pda\<close>, the first one (steps 1 and 2 of the relayer).
\<close>

definition next_transaction ::
  "(Instruction list \<Rightarrow> byte list option) \<Rightarrow> RelayContext \<Rightarrow> RelayerTransaction
     \<Rightarrow> error + RelayerTransaction" where
  "next_transaction simulate c t =
     (case simulate (convert_transaction c t) of
        None \<Rightarrow> Inl SimulationFailure
      | Some return_data \<Rightarrow> decode return_data)"

partial_function (option) discover ::
  "(Instruction list \<Rightarrow> byte list option) \<Rightarrow> RelayContext \<Rightarrow> nat \<Rightarrow> RelayerTransaction
     \<Rightarrow> (error + nat \<times> RelayerTransaction) option" where
  "discover simulate c rounds t =
     (if is_final t then Some (Inr (rounds, t))
      else (case next_transaction simulate c t of
              Inl e \<Rightarrow> Some (Inl e)
            | Inr t' \<Rightarrow> discover simulate c (Suc rounds) t'))"

definition relayer_discover ::
  "(Pubkey \<Rightarrow> byte list option) \<Rightarrow> (Instruction list \<Rightarrow> byte list option) \<Rightarrow> RelayContext
     \<Rightarrow> Pubkey \<Rightarrow> (error + nat \<times> RelayerTransaction) option" where
  "relayer_discover getAccountInfo simulate c address =
     (case getAccountInfo address of
        None \<Rightarrow> Some (Inl AccountNotFoundError)
      | Some bytes \<Rightarrow>
          (case decode bytes of
             Inl e \<Rightarrow> Some (Inl e)
           | Inr t \<Rightarrow> discover simulate c 1 t))"

text \<open>
  Steps 4 and 5 of the relayer: "The response now can be converted to a final
  \<open>RelayerTransaction\<close>. It requires that the payer is passed as a signer and some funds are
  requested. If the gas covers the amount requested alongside what would be needed for the
  execution (another \<open>simulateTransaction\<close> is needed to determine this, but it is not
  instrumental for this example) then make sure the payer has exactly the funds requested
  (to ensure loss of additional funds). Finally execute the transaction, passing the
  properly funded payer."

  \<open>requested\<close> is the sum of the lamports the payer entries of the final descriptor specify.
  \<open>gas_covers\<close> is the document's condition, with \<open>execution_cost\<close> for what the execution
  needs. \<open>shortfall\<close> is the transfer to the payer that leaves it with exactly the funds
  requested (negative when it holds more).
\<close>

definition requested :: "RelayerTransaction \<Rightarrow> nat" where
  "requested t = sum_list (map requested_lamports (concat (map accounts (instructions t))))"

definition gas_covers :: "nat \<Rightarrow> nat \<Rightarrow> nat \<Rightarrow> bool" where
  "gas_covers gas execution_cost amount = (amount + execution_cost \<le> gas)"

definition shortfall :: "nat \<Rightarrow> nat \<Rightarrow> int" where
  "shortfall amount balance = int amount - int balance"

text \<open>Modelled from the spec: how the attempt ends when it fails, which the document leaves
  out: its condition has no else-branch, and it does not say what follows a transaction
  that fails. Section 4.5 has "fail with \<open>FundingMismatch\<close> (do not partially fund)": the
  failure, and the payer's balance as it was. Section 4.4 has \<open>ExecutionFailure\<close> as the
  other failure of the last step: the failure, and the payer's balance as funded.\<close>

definition funding_refused :: "nat \<Rightarrow> (error + unit) \<times> nat" where
  "funding_refused balance = (Inl FundingMismatch, balance)"

definition execution_failed :: "nat \<Rightarrow> (error + unit) \<times> nat" where
  "execution_failed funded = (Inl ExecutionFailure, funded)"

text \<open>
  The two steps. The node's execution is a parameter: from the instructions and the
  payer's balance before to the payer's balance after, or nothing when the transaction
  fails; what it takes from the payer is the destination program's doing.
  \<open>fund_and_execute\<close> returns the outcome and the payer's balance at the end.
\<close>

definition fund_and_execute ::
  "(Instruction list \<Rightarrow> nat \<Rightarrow> nat option) \<Rightarrow> RelayContext \<Rightarrow> nat \<Rightarrow> nat \<Rightarrow> nat
     \<Rightarrow> RelayerTransaction \<Rightarrow> (error + unit) \<times> nat" where
  "fund_and_execute execute c gas execution_cost balance t =
     (if gas_covers gas execution_cost (requested t) then
        (let funded = nat (int balance + shortfall (requested t) balance) in
         case execute (convert_transaction c t) funded of
           None \<Rightarrow> execution_failed funded
         | Some after \<Rightarrow> (Inr (), after))
      else funding_refused balance)"

section \<open>The generated bindings of the gateway program\<close>

text \<open>
  \<open>coder/events.ts\<close>: the events coder of the gateway. Its \<open>decode\<close> has the result type
  \<open>Event<E, T> | null\<close> and the body \<open>throw new Error("AxelarSolanaGateway program does not
  have events")\<close>. A thrown error is the left summand; \<open>null\<close> is \<open>None\<close>.
\<close>

datatype js_error = Error string

definition AxelarSolanaGatewayEventsCoder_decode :: "string \<Rightarrow> js_error + 'event option" where
  "AxelarSolanaGatewayEventsCoder_decode log =
     Inl (Error ''AxelarSolanaGateway program does not have events'')"

text \<open>
  \<open>program.ts\<close>:
  \<^verbatim>\<open>
  export const AXELAR_SOLANA_GATEWAY_PROGRAM_ID = new PublicKey(
    "gtwLjHAsfKAR6GWB4hzTUAA1w4SDdFMKamtGA5ttMEe");
  interface GetProgramParams { programId?: PublicKey; provider?: AnchorProvider; }
  export function axelarSolanaGatewayProgram(params?: GetProgramParams) {
    return new Program<AxelarSolanaGateway>(
      IDL, params?.programId ?? AXELAR_SOLANA_GATEWAY_PROGRAM_ID,
      params?.provider, new AxelarSolanaGatewayCoder(IDL));
  }
  \<close>
  An optional field or parameter is an \<open>option\<close>; \<open>params?.programId\<close> is absent when
  \<open>params\<close> is, and \<open>??\<close> takes its right operand when the left one is absent. The provider
  is Anchor's and stays a type parameter; the constant \<open>IDL\<close> (the interface description of
  the program, some 900 lines of data) and the coder's constructor (\<open>./coder\<close>) are
  parameters of the function. \<open>Program\<close> is the constructor called with \<open>new\<close>.
\<close>

datatype PublicKey = PublicKey string

definition AXELAR_SOLANA_GATEWAY_PROGRAM_ID :: PublicKey where
  "AXELAR_SOLANA_GATEWAY_PROGRAM_ID = PublicKey ''gtwLjHAsfKAR6GWB4hzTUAA1w4SDdFMKamtGA5ttMEe''"

record 'provider GetProgramParams =
  programId :: "PublicKey option"
  provider :: "'provider option"

datatype ('idl, 'provider, 'coder) Program =
  Program (Program_idl: 'idl) (Program_programId: PublicKey)
    (Program_provider: "'provider option") (Program_coder: 'coder)

definition axelarSolanaGatewayProgram ::
  "'idl \<Rightarrow> ('idl \<Rightarrow> 'coder) \<Rightarrow> 'provider GetProgramParams option
     \<Rightarrow> ('idl, 'provider, 'coder) Program" where
  "axelarSolanaGatewayProgram IDL AxelarSolanaGatewayCoder params =
     Program IDL
       (case Option.bind params programId of
          None \<Rightarrow> AXELAR_SOLANA_GATEWAY_PROGRAM_ID
        | Some k \<Rightarrow> k)
       (Option.bind params provider)
       (AxelarSolanaGatewayCoder IDL)"

section \<open>Example values\<close>

text \<open>
  The final descriptor of the document's example, in the shape the specification's
  scenario B gives it: the payer with 1000 lamports requested, the incoming message, the
  message payload and one writable hardcoded account; the data is the selector byte
  followed by the message.
\<close>

definition example_final :: RelayerTransaction where
  "example_final =
     \<lparr>is_final = True,
      instructions =
        [\<lparr>program = replicate 32 7,
          accounts =
            [Payer 1000, IncomingMessage, MessagePayload,
             Account \<lparr>pubkey = replicate 32 9, is_signer = False, is_writable = True\<rparr>],
          data = [Bytes [9], Message]\<rparr>]\<rparr>"

text \<open>
  The descriptor the document's executable writes into its \<open>transaction_pda\<close>: not final,
  one instruction that takes the message payload and a selector byte. And a context of a
  relayed message.
\<close>

definition example_first :: RelayerTransaction where
  "example_first =
     \<lparr>is_final = False,
      instructions =
        [\<lparr>program = replicate 32 7, accounts = [MessagePayload], data = [Bytes [1]]\<rparr>]\<rparr>"

definition example_context :: RelayContext where
  "example_context =
     \<lparr>payer = replicate 32 1,
      incoming_message_pda =
        \<lparr>pubkey = replicate 32 2, is_signer = False, is_writable = True\<rparr>,
      message_payload_pda =
        \<lparr>pubkey = replicate 32 3, is_signer = False, is_writable = False\<rparr>,
      message = [0x4d]\<rparr>"

section \<open>The address of the descriptor\<close>

text \<open>
  The document: "The \<open>transaction_pda\<close> should be derived by only a single seed:
  \<open>keccak256('relayer-discovery-transaction') =
  0xa57128349132c58c5700674195df81ef5ee89bc36f0e9676bae7e1479b7fcede\<close>", and the executable
  runs
  \<^verbatim>\<open>
  let (transaction_pda, bump) = Pubkey::find_program_address(
      &[ TRANSACTION_PDA_SEED ], &crate::id());
  \<close>
  \<open>find_program_address\<close> is the Solana SDK's and is a parameter here: from the seeds and
  the program id to the address and its bump.
\<close>

definition TRANSACTION_PDA_SEED :: "byte list" where
  "TRANSACTION_PDA_SEED =
     [0xa5, 0x71, 0x28, 0x34, 0x91, 0x32, 0xc5, 0x8c, 0x57, 0x00, 0x67, 0x41, 0x95, 0xdf, 0x81,
      0xef, 0x5e, 0xe8, 0x9b, 0xc3, 0x6f, 0x0e, 0x96, 0x76, 0xba, 0xe7, 0xe1, 0x47, 0x9b, 0x7f,
      0xce, 0xde]"

definition transaction_pda ::
  "(byte list list \<Rightarrow> Pubkey \<Rightarrow> Pubkey \<times> byte) \<Rightarrow> Pubkey \<Rightarrow> Pubkey \<times> byte" where
  "transaction_pda find_program_address crate_id =
     find_program_address [TRANSACTION_PDA_SEED] crate_id"

text \<open>
  \<open>keccak256\<close> is not code of the repository. To check the constant against the string the
  document gives, the hash is written out here from the Keccak reference: the permutation
  Keccak-f[1600] on 25 lanes of 64 bits (lane \<open>(x, y)\<close> at index \<open>x + 5 * y\<close>), 24 rounds of
  theta, rho and pi, chi and iota; the sponge with a rate of 136 bytes, the padding
  \<open>pad10*1\<close> of the original Keccak (first padding byte \<open>0x01\<close>), and 32 bytes of output.
\<close>

type_synonym lane = "64 word"

definition rotl64 :: "lane \<Rightarrow> nat \<Rightarrow> lane" where
  "rotl64 w n = push_bit n w OR drop_bit (64 - n) w"

definition RC :: "lane list" where
  "RC = [0x1, 0x8082, 0x800000000000808a, 0x8000000080008000, 0x808b, 0x80000001,
         0x8000000080008081, 0x8000000000008009, 0x8a, 0x88, 0x80008009, 0x8000000a,
         0x8000808b, 0x800000000000008b, 0x8000000000008089, 0x8000000000008003,
         0x8000000000008002, 0x8000000000000080, 0x800a, 0x800000008000000a,
         0x8000000080008081, 0x8000000000008080, 0x80000001, 0x8000000080008008]"

definition PI_SRC :: "nat list" where
  "PI_SRC = [0, 6, 12, 18, 24, 3, 9, 10, 16, 22, 1, 7, 13, 19, 20, 4, 5, 11, 17, 23, 2, 8,
             14, 15, 21]"

definition RHO :: "nat list" where
  "RHO = [0, 44, 43, 21, 14, 28, 20, 3, 45, 61, 1, 6, 25, 8, 18, 27, 36, 10, 15, 56, 62, 55,
          39, 41, 2]"

definition theta_C :: "lane list \<Rightarrow> lane list" where
  "theta_C A =
     map (\<lambda>x. A ! x XOR A ! (x + 5) XOR A ! (x + 10) XOR A ! (x + 15) XOR A ! (x + 20)) [0..<5]"

definition theta_D :: "lane list \<Rightarrow> lane list" where
  "theta_D C = map (\<lambda>x. C ! ((x + 4) mod 5) XOR rotl64 (C ! ((x + 1) mod 5)) 1) [0..<5]"

definition theta_apply :: "lane list \<Rightarrow> lane list \<Rightarrow> lane list" where
  "theta_apply D A = map (\<lambda>i. A ! i XOR D ! (i mod 5)) [0..<25]"

definition theta :: "lane list \<Rightarrow> lane list" where
  "theta A = theta_apply (theta_D (theta_C A)) A"

definition rho_pi :: "lane list \<Rightarrow> lane list" where
  "rho_pi A = map (\<lambda>j. rotl64 (A ! (PI_SRC ! j)) (RHO ! j)) [0..<25]"

definition chi :: "lane list \<Rightarrow> lane list" where
  "chi B =
     map (\<lambda>i. B ! i XOR
                (NOT (B ! (5 * (i div 5) + (i + 1) mod 5)) AND B ! (5 * (i div 5) + (i + 2) mod 5)))
       [0..<25]"

definition iota :: "lane \<Rightarrow> lane list \<Rightarrow> lane list" where
  "iota rc A = A[0 := A ! 0 XOR rc]"

definition keccak_round :: "lane list \<Rightarrow> lane \<Rightarrow> lane list" where
  "keccak_round A rc = iota rc (chi (rho_pi (theta A)))"

definition keccak_f :: "lane list \<Rightarrow> lane list" where
  "keccak_f A = foldl keccak_round A RC"

text \<open>Padding, absorbing the blocks of 136 bytes (17 lanes, little-endian), and the output:
  the first four lanes, little-endian.\<close>

definition keccak_pad :: "byte list \<Rightarrow> byte list" where
  "keccak_pad msg =
     (let q = 136 - length msg mod 136 in
      if q = 1 then msg @ [0x81] else msg @ [0x01] @ replicate (q - 2) 0 @ [0x80])"

definition block_lanes :: "byte list \<Rightarrow> lane list" where
  "block_lanes block =
     map (\<lambda>i. word_of_nat (dec_le (take 8 (drop (8 * i) block)))) [0..<17] @ replicate 8 0"

definition absorb :: "lane list \<Rightarrow> byte list \<Rightarrow> lane list" where
  "absorb A block = keccak_f (map (\<lambda>(a, b). a XOR b) (zip A (block_lanes block)))"

definition keccak256 :: "byte list \<Rightarrow> byte list" where
  "keccak256 msg =
     (let p = keccak_pad msg;
          blocks = map (\<lambda>j. take 136 (drop (136 * j) p)) [0..<length p div 136];
          A = foldl absorb (replicate 25 0) blocks
      in concat (map (\<lambda>w. enc_le 8 (unat w)) (take 4 A)))"

definition bytes_of :: "string \<Rightarrow> byte list" where
  "bytes_of s = map (\<lambda>ch. word_of_nat (of_char ch)) s"

section \<open>Properties of the codec\<close>

lemma length_enc_le: "length (enc_le n x) = n"
  by (induction n arbitrary: x) simp_all

lemma dec_enc_le: "dec_le (enc_le n x) = x mod 256 ^ n"
proof (induction n arbitrary: x)
  case 0
  show ?case by simp
next
  case (Suc n)
  have "unat (word_of_nat (x mod 256) :: byte) = x mod 256"
    by (simp add: unat_of_nat)
  then show ?case
    by (simp add: Suc mod_mult2_eq)
qed

text \<open>For the evaluation of \<open>enc_le\<close> at a numeral.\<close>

lemma enc_le_numeral:
  "enc_le (numeral k) x = word_of_nat (x mod 256) # enc_le (pred_numeral k) (x div 256)"
  using enc_le.simps(2) [of "pred_numeral k" x] by (simp only: numeral_eq_Suc [symmetric])

subsection \<open>Reading back what was written\<close>

lemma dec_fixed_append: "length xs = n \<Longrightarrow> dec_fixed n (xs @ rest) = Some (xs, rest)"
  by (simp add: dec_fixed_def)

lemma dec_bool_enc: "dec_bool (enc_bool b @ rest) = Some (b, rest)"
  by (simp add: enc_bool_def)

lemma dec_u32_enc: "n < 2 ^ 32 \<Longrightarrow> dec_u32 (enc_u32 n @ rest) = Some (n, rest)"
  by (simp add: dec_u32_def enc_u32_def dec_fixed_append length_enc_le dec_enc_le)

lemma dec_u64_enc: "dec_u64 (enc_u64 w @ rest) = Some (w, rest)"
proof -
  have "unat w < 2 ^ 64"
    using unsigned_less [of w, where 'a = nat] by simp
  then have "unat w mod 256 ^ 8 = unat w" by simp
  then show ?thesis
    by (simp add: dec_u64_def enc_u64_def dec_fixed_append length_enc_le dec_enc_le)
qed

lemma dec_seq_enc:
  assumes "\<And>x r. x \<in> set xs \<Longrightarrow> p (enc x @ r) = Some (x, r)"
  shows "dec_seq p (length xs) (concat (map enc xs) @ rest) = Some (xs, rest)"
  using assms by (induction xs) simp_all

lemma dec_vec_enc:
  assumes "valid_len xs" and "\<And>x r. x \<in> set xs \<Longrightarrow> p (enc x @ r) = Some (x, r)"
  shows "dec_vec p (enc_vec enc xs @ rest) = Some (xs, rest)"
  using assms by (simp add: dec_vec_def enc_vec_def valid_len_def dec_u32_enc dec_seq_enc)

lemma dec_u8_enc: "dec_u8 ([b] @ r) = Some (b, r)"
  by simp

lemma dec_AccountMeta_enc:
  "valid_Pubkey (pubkey m) \<Longrightarrow> dec_AccountMeta (enc_AccountMeta m @ rest) = Some (m, rest)"
  by (simp add: dec_AccountMeta_def enc_AccountMeta_def valid_Pubkey_def dec_fixed_append
      dec_bool_enc)

lemma dec_RelayerData_enc:
  "valid_RelayerData d \<Longrightarrow> dec_RelayerData (enc_RelayerData d @ rest) = Some (d, rest)"
  by (cases d) (simp_all add: dec_vec_enc)

lemma dec_RelayerAccount_enc:
  "valid_RelayerAccount a \<Longrightarrow> dec_RelayerAccount (enc_RelayerAccount a @ rest) = Some (a, rest)"
  by (cases a) (simp_all add: dec_AccountMeta_enc dec_u64_enc)

lemma dec_RelayerInstruction_enc:
  "valid_RelayerInstruction i \<Longrightarrow>
   dec_RelayerInstruction (enc_RelayerInstruction i @ rest) = Some (i, rest)"
  by (simp add: dec_RelayerInstruction_def enc_RelayerInstruction_def
      valid_RelayerInstruction_def valid_Pubkey_def dec_fixed_append dec_vec_enc
      dec_RelayerAccount_enc dec_RelayerData_enc list_all_iff)

lemma dec_RelayerTransaction_enc:
  "valid_RelayerTransaction t \<Longrightarrow>
   dec_RelayerTransaction (encode t @ rest) = Some (t, rest)"
  by (simp add: dec_RelayerTransaction_def encode_def valid_RelayerTransaction_def
      dec_bool_enc dec_vec_enc dec_RelayerInstruction_enc list_all_iff)

subsection \<open>Readers keep their result when input is appended\<close>

lemma stableD: "reader_stable p \<Longrightarrow> p bs = Some (x, r) \<Longrightarrow> p (bs @ e) = Some (x, r @ e)"
  by (simp add: reader_stable_def)

lemma consumingD: "consuming p \<Longrightarrow> p bs = Some (x, r) \<Longrightarrow> length r < length bs"
  by (simp add: consuming_def)

lemma stable_dec_fixed: "reader_stable (dec_fixed n)"
  by (auto simp: reader_stable_def dec_fixed_def split: if_splits)

lemma stable_dec_u8: "reader_stable dec_u8"
  unfolding reader_stable_def
proof (intro allI impI)
  fix bs x r e assume "dec_u8 bs = Some (x, r)"
  then show "dec_u8 (bs @ e) = Some (x, r @ e)" by (cases bs) auto
qed

lemma stable_dec_bool: "reader_stable dec_bool"
  unfolding reader_stable_def
proof (intro allI impI)
  fix bs x r e assume "dec_bool bs = Some (x, r)"
  then show "dec_bool (bs @ e) = Some (x, r @ e)" by (cases bs) (auto split: if_splits)
qed

lemma stable_dec_u32: "reader_stable dec_u32"
  unfolding reader_stable_def
proof (intro allI impI)
  fix bs x r e assume "dec_u32 bs = Some (x, r)"
  then obtain y where "dec_fixed 4 bs = Some (y, r)" and x: "x = dec_le y"
    by (auto simp: dec_u32_def split: option.splits)
  then have "dec_fixed 4 (bs @ e) = Some (y, r @ e)"
    by (simp add: stableD [OF stable_dec_fixed])
  then show "dec_u32 (bs @ e) = Some (x, r @ e)" by (simp add: dec_u32_def x)
qed

lemma stable_dec_u64: "reader_stable dec_u64"
  unfolding reader_stable_def
proof (intro allI impI)
  fix bs x r e assume "dec_u64 bs = Some (x, r)"
  then obtain y where "dec_fixed 8 bs = Some (y, r)" and x: "x = word_of_nat (dec_le y)"
    by (auto simp: dec_u64_def split: option.splits)
  then have "dec_fixed 8 (bs @ e) = Some (y, r @ e)"
    by (simp add: stableD [OF stable_dec_fixed])
  then show "dec_u64 (bs @ e) = Some (x, r @ e)" by (simp add: dec_u64_def x)
qed

lemma dec_seq_ext:
  assumes p: "reader_stable p"
  shows "dec_seq p n bs = Some (xs, r) \<Longrightarrow> dec_seq p n (bs @ e) = Some (xs, r @ e)"
proof (induction n arbitrary: bs xs r)
  case 0
  then show ?case by simp
next
  case (Suc n)
  from Suc.prems obtain x r1 ys where
    px: "p bs = Some (x, r1)" and rest: "dec_seq p n r1 = Some (ys, r)" and xs: "xs = x # ys"
    by (auto split: option.splits)
  from p px have "p (bs @ e) = Some (x, r1 @ e)" by (rule stableD)
  moreover from rest have "dec_seq p n (r1 @ e) = Some (ys, r @ e)" by (rule Suc.IH)
  ultimately show ?case by (simp add: xs)
qed

lemma stable_dec_vec:
  assumes p: "reader_stable p"
  shows "reader_stable (dec_vec p)"
  unfolding reader_stable_def
proof (intro allI impI)
  fix bs xs r e assume "dec_vec p bs = Some (xs, r)"
  then obtain n r1 where n: "dec_u32 bs = Some (n, r1)" and s: "dec_seq p n r1 = Some (xs, r)"
    by (auto simp: dec_vec_def split: option.splits)
  from n have "dec_u32 (bs @ e) = Some (n, r1 @ e)" by (rule stableD [OF stable_dec_u32])
  moreover from s have "dec_seq p n (r1 @ e) = Some (xs, r @ e)" by (rule dec_seq_ext [OF p])
  ultimately show "dec_vec p (bs @ e) = Some (xs, r @ e)" by (simp add: dec_vec_def)
qed

lemma stable_dec_AccountMeta: "reader_stable dec_AccountMeta"
  unfolding reader_stable_def
proof (intro allI impI)
  fix bs x r e assume "dec_AccountMeta bs = Some (x, r)"
  then obtain k r1 s r2 w where
    a: "dec_fixed 32 bs = Some (k, r1)" and b: "dec_bool r1 = Some (s, r2)" and
    c: "dec_bool r2 = Some (w, r)" and x: "x = \<lparr>pubkey = k, is_signer = s, is_writable = w\<rparr>"
    by (auto simp: dec_AccountMeta_def split: option.splits)
  note stableD [OF stable_dec_fixed a, of e] stableD [OF stable_dec_bool b, of e]
    stableD [OF stable_dec_bool c, of e]
  then show "dec_AccountMeta (bs @ e) = Some (x, r @ e)"
    by (simp add: dec_AccountMeta_def x)
qed

lemma stable_dec_RelayerData: "reader_stable dec_RelayerData"
  unfolding reader_stable_def
proof (intro allI impI)
  fix bs x r e assume a: "dec_RelayerData bs = Some (x, r)"
  show "dec_RelayerData (bs @ e) = Some (x, r @ e)"
  proof (cases bs)
    case Nil
    with a show ?thesis by simp
  next
    case (Cons t bs')
    show ?thesis
    proof (cases "t = 0")
      case True
      with a Cons obtain ys where v: "dec_vec dec_u8 bs' = Some (ys, r)" and x: "x = Bytes ys"
        by (auto split: option.splits)
      from v have "dec_vec dec_u8 (bs' @ e) = Some (ys, r @ e)"
        by (rule stableD [OF stable_dec_vec [OF stable_dec_u8]])
      with Cons True x show ?thesis by simp
    next
      case False
      with a Cons show ?thesis by (auto split: if_splits)
    qed
  qed
qed

lemma stable_dec_RelayerAccount: "reader_stable dec_RelayerAccount"
  unfolding reader_stable_def
proof (intro allI impI)
  fix bs x r e assume a: "dec_RelayerAccount bs = Some (x, r)"
  show "dec_RelayerAccount (bs @ e) = Some (x, r @ e)"
  proof (cases bs)
    case Nil
    with a show ?thesis by simp
  next
    case (Cons t bs')
    consider "t = 0" | "t = 3" | "t \<noteq> 0" "t \<noteq> 3" by blast
    then show ?thesis
    proof cases
      case 1
      with a Cons obtain m where v: "dec_AccountMeta bs' = Some (m, r)" and x: "x = Account m"
        by (auto split: option.splits)
      from v have "dec_AccountMeta (bs' @ e) = Some (m, r @ e)"
        by (rule stableD [OF stable_dec_AccountMeta])
      with Cons 1 x show ?thesis by simp
    next
      case 2
      with a Cons obtain m where v: "dec_u64 bs' = Some (m, r)" and x: "x = Payer m"
        by (auto split: option.splits)
      from v have "dec_u64 (bs' @ e) = Some (m, r @ e)"
        by (rule stableD [OF stable_dec_u64])
      with Cons 2 x show ?thesis by simp
    next
      case 3
      with a Cons show ?thesis by (auto split: if_splits)
    qed
  qed
qed

lemma stable_dec_RelayerInstruction: "reader_stable dec_RelayerInstruction"
  unfolding reader_stable_def
proof (intro allI impI)
  fix bs x r e assume "dec_RelayerInstruction bs = Some (x, r)"
  then obtain p r1 as r2 ds where
    a: "dec_fixed 32 bs = Some (p, r1)" and
    b: "dec_vec dec_RelayerAccount r1 = Some (as, r2)" and
    c: "dec_vec dec_RelayerData r2 = Some (ds, r)" and
    x: "x = \<lparr>program = p, accounts = as, data = ds\<rparr>"
    by (auto simp: dec_RelayerInstruction_def split: option.splits)
  note stableD [OF stable_dec_fixed a, of e]
    stableD [OF stable_dec_vec [OF stable_dec_RelayerAccount] b, of e]
    stableD [OF stable_dec_vec [OF stable_dec_RelayerData] c, of e]
  then show "dec_RelayerInstruction (bs @ e) = Some (x, r @ e)"
    by (simp add: dec_RelayerInstruction_def x)
qed

lemma stable_dec_RelayerTransaction: "reader_stable dec_RelayerTransaction"
  unfolding reader_stable_def
proof (intro allI impI)
  fix bs x r e assume "dec_RelayerTransaction bs = Some (x, r)"
  then obtain f r1 insts where
    a: "dec_bool bs = Some (f, r1)" and
    b: "dec_vec dec_RelayerInstruction r1 = Some (insts, r)" and
    x: "x = \<lparr>is_final = f, instructions = insts\<rparr>"
    by (auto simp: dec_RelayerTransaction_def split: option.splits)
  note stableD [OF stable_dec_bool a, of e]
    stableD [OF stable_dec_vec [OF stable_dec_RelayerInstruction] b, of e]
  then show "dec_RelayerTransaction (bs @ e) = Some (x, r @ e)"
    by (simp add: dec_RelayerTransaction_def x)
qed

lemma decode_truncated:
  assumes v: "valid_RelayerTransaction t" and n: "n < length (encode t)"
  shows "decode (take n (encode t)) = Inl DecodeError"
proof (cases "dec_RelayerTransaction (take n (encode t))")
  case None
  then show ?thesis by (simp add: decode_def)
next
  case (Some a)
  obtain u r where a: "a = (u, r)" by (cases a)
  from Some a have "dec_RelayerTransaction (take n (encode t) @ drop n (encode t))
      = Some (u, r @ drop n (encode t))"
    by (simp only: stableD [OF stable_dec_RelayerTransaction])
  moreover have "dec_RelayerTransaction (encode t @ []) = Some (t, [])"
    using v by (rule dec_RelayerTransaction_enc)
  ultimately have "r @ drop n (encode t) = []" by simp
  with n show ?thesis by simp
qed

subsection \<open>Readers use up input\<close>

lemma dec_fixed_len: "dec_fixed n bs = Some (x, r) \<Longrightarrow> length r + n = length bs"
  by (auto simp: dec_fixed_def split: if_splits)

lemma dec_bool_len: "dec_bool bs = Some (x, r) \<Longrightarrow> length r + 1 = length bs"
  by (cases bs) (auto split: if_splits)

lemma consuming_dec_u8: "consuming dec_u8"
  unfolding consuming_def
proof (intro allI impI)
  fix bs x r assume "dec_u8 bs = Some (x, r)"
  then show "length r < length bs" by (cases bs) auto
qed

lemma dec_u32_len: "dec_u32 bs = Some (x, r) \<Longrightarrow> length r + 4 = length bs"
  by (auto simp: dec_u32_def split: option.splits dest: dec_fixed_len)

lemma dec_u64_len: "dec_u64 bs = Some (x, r) \<Longrightarrow> length r + 8 = length bs"
  by (auto simp: dec_u64_def split: option.splits dest: dec_fixed_len)

lemma dec_seq_len:
  assumes p: "consuming p"
  shows "dec_seq p n bs = Some (xs, r) \<Longrightarrow> length r + n \<le> length bs"
proof (induction n arbitrary: bs xs r)
  case 0
  then show ?case by simp
next
  case (Suc n)
  from Suc.prems obtain x r1 ys where
    px: "p bs = Some (x, r1)" and rest: "dec_seq p n r1 = Some (ys, r)"
    by (auto split: option.splits)
  from p px have "length r1 < length bs" by (rule consumingD)
  moreover from rest have "length r + n \<le> length r1" by (rule Suc.IH)
  ultimately show ?case by simp
qed

lemma dec_vec_len:
  assumes p: "consuming p" and v: "dec_vec p bs = Some (xs, r)"
  shows "length r + 4 \<le> length bs"
proof -
  from v obtain n r1 where n: "dec_u32 bs = Some (n, r1)" and s: "dec_seq p n r1 = Some (xs, r)"
    by (auto simp: dec_vec_def split: option.splits)
  from dec_u32_len [OF n] dec_seq_len [OF p s] show ?thesis by simp
qed

lemma dec_seq_short:
  assumes p: "consuming p" and short: "length bs < n"
  shows "dec_seq p n bs = None"
proof (cases "dec_seq p n bs")
  case None
  then show ?thesis .
next
  case (Some a)
  then have "length (snd a) + n \<le> length bs"
    using dec_seq_len [OF p, of n bs "fst a" "snd a"] by simp
  with short show ?thesis by simp
qed

lemma dec_vec_short:
  assumes "consuming p" and "n < 2 ^ 32" and "length bs < n"
  shows "dec_vec p (enc_u32 n @ bs) = None"
  using assms by (simp add: dec_vec_def dec_u32_enc dec_seq_short)

lemma consuming_dec_RelayerData: "consuming dec_RelayerData"
  unfolding consuming_def
proof (intro allI impI)
  fix bs x r assume a: "dec_RelayerData bs = Some (x, r)"
  show "length r < length bs"
  proof (cases bs)
    case Nil
    with a show ?thesis by simp
  next
    case (Cons t bs')
    show ?thesis
    proof (cases "t = 0")
      case True
      with a Cons obtain ys where v: "dec_vec dec_u8 bs' = Some (ys, r)"
        by (auto split: option.splits)
      from dec_vec_len [OF consuming_dec_u8 v] Cons show ?thesis by simp
    next
      case False
      with a Cons show ?thesis by (auto split: if_splits)
    qed
  qed
qed

lemma consuming_dec_RelayerAccount: "consuming dec_RelayerAccount"
  unfolding consuming_def
proof (intro allI impI)
  fix bs x r assume a: "dec_RelayerAccount bs = Some (x, r)"
  show "length r < length bs"
  proof (cases bs)
    case Nil
    with a show ?thesis by simp
  next
    case (Cons t bs')
    consider "t = 0" | "t = 3" | "t \<noteq> 0" "t \<noteq> 3" by blast
    then show ?thesis
    proof cases
      case 1
      with a Cons obtain k r1 s r2 w where
        "dec_fixed 32 bs' = Some (k, r1)" "dec_bool r1 = Some (s, r2)" "dec_bool r2 = Some (w, r)"
        by (auto simp: dec_AccountMeta_def split: option.splits)
      from dec_fixed_len [OF this(1)] dec_bool_len [OF this(2)] dec_bool_len [OF this(3)] Cons
      show ?thesis by simp
    next
      case 2
      with a Cons obtain m where v: "dec_u64 bs' = Some (m, r)"
        by (auto split: option.splits)
      from dec_u64_len [OF v] Cons show ?thesis by simp
    next
      case 3
      with a Cons show ?thesis by (auto split: if_splits)
    qed
  qed
qed

lemma consuming_dec_RelayerInstruction: "consuming dec_RelayerInstruction"
  unfolding consuming_def
proof (intro allI impI)
  fix bs x r assume "dec_RelayerInstruction bs = Some (x, r)"
  then obtain p r1 as r2 ds where
    a: "dec_fixed 32 bs = Some (p, r1)" and
    b: "dec_vec dec_RelayerAccount r1 = Some (as, r2)" and
    c: "dec_vec dec_RelayerData r2 = Some (ds, r)"
    by (auto simp: dec_RelayerInstruction_def split: option.splits)
  from dec_fixed_len [OF a] dec_vec_len [OF consuming_dec_RelayerAccount b]
    dec_vec_len [OF consuming_dec_RelayerData c]
  show "length r < length bs" by simp
qed

subsection \<open>A failing element fails the descriptor\<close>

lemma dec_seq_length: "dec_seq p n bs = Some (xs, r) \<Longrightarrow> length xs = n"
  by (induction n arbitrary: bs xs r) (auto split: option.splits)

lemma dec_seq_fails_at:
  assumes rt: "\<And>x r. x \<in> set xs \<Longrightarrow> p (enc x @ r) = Some (x, r)"
    and less: "length xs < n" and fail: "p bs = None"
  shows "dec_seq p n (concat (map enc xs) @ bs) = None"
  using rt less
proof (induction xs arbitrary: n)
  case Nil
  then obtain m where "n = Suc m" by (cases n) auto
  with fail show ?case by simp
next
  case (Cons x xs)
  from Cons.prems(2) obtain m where n: "n = Suc m" and m: "length xs < m" by (cases n) auto
  have "dec_seq p m (concat (map enc xs) @ bs) = None"
    using Cons.prems(1) m by (intro Cons.IH) auto
  moreover have "p (enc x @ concat (map enc xs) @ bs) = Some (x, concat (map enc xs) @ bs)"
    by (rule Cons.prems(1)) simp
  ultimately show ?case by (simp add: n)
qed

lemma dec_vec_fails_at:
  assumes "\<And>x r. x \<in> set xs \<Longrightarrow> p (enc x @ r) = Some (x, r)"
    and "length xs < n" and "n < 2 ^ 32" and "p bs = None"
  shows "dec_vec p (enc_u32 n @ concat (map enc xs) @ bs) = None"
  using assms by (simp add: dec_vec_def dec_u32_enc dec_seq_fails_at)

lemma decode_at_instruction:
  assumes "n < 2 ^ 32" and "length pre < n" and "list_all valid_RelayerInstruction pre"
    and "dec_RelayerInstruction bs = None"
  shows "decode (at_instruction f n pre bs) = Inl DecodeError"
proof -
  have "dec_vec dec_RelayerInstruction
      (enc_u32 n @ concat (map enc_RelayerInstruction pre) @ bs) = None"
    using assms by (intro dec_vec_fails_at) (simp_all add: dec_RelayerInstruction_enc list_all_iff)
  then show ?thesis
    by (simp add: decode_def dec_RelayerTransaction_def at_instruction_def dec_bool_enc)
qed

lemma dec_RelayerInstruction_at_account:
  assumes "valid_Pubkey prog" and "k < 2 ^ 32" and "length as < k"
    and "list_all valid_RelayerAccount as" and "dec_RelayerAccount bs = None"
  shows "dec_RelayerInstruction (at_account prog k as bs) = None"
proof -
  have "dec_vec dec_RelayerAccount (enc_u32 k @ concat (map enc_RelayerAccount as) @ bs) = None"
    using assms by (intro dec_vec_fails_at) (simp_all add: dec_RelayerAccount_enc list_all_iff)
  with assms(1) show ?thesis
    by (simp add: dec_RelayerInstruction_def at_account_def dec_fixed_append valid_Pubkey_def)
qed

lemma dec_RelayerInstruction_at_data:
  assumes "valid_Pubkey prog" and "valid_len as" and "list_all valid_RelayerAccount as"
    and "m < 2 ^ 32" and "length ds < m" and "list_all valid_RelayerData ds"
    and "dec_RelayerData bs = None"
  shows "dec_RelayerInstruction (at_data prog as m ds bs) = None"
proof -
  have "dec_vec dec_RelayerData (enc_u32 m @ concat (map enc_RelayerData ds) @ bs) = None"
    using assms by (intro dec_vec_fails_at) (simp_all add: dec_RelayerData_enc list_all_iff)
  moreover have "dec_vec dec_RelayerAccount (enc_vec enc_RelayerAccount as @ r) = Some (as, r)" for r
    using assms by (intro dec_vec_enc) (simp_all add: dec_RelayerAccount_enc list_all_iff)
  ultimately show ?thesis using assms(1)
    by (simp add: dec_RelayerInstruction_def at_data_def dec_fixed_append valid_Pubkey_def)
qed

lemma dec_RelayerAccount_tag:
  "t \<notin> {0, 1, 2, 3} \<Longrightarrow> dec_RelayerAccount (t # rest) = None"
  by simp

lemma dec_RelayerData_tag:
  "t \<notin> {0, 1} \<Longrightarrow> dec_RelayerData (t # rest) = None"
  by simp

lemma dec_RelayerInstruction_count:
  assumes "n < 2 ^ 32" and "length rest < n"
  shows "decode (enc_bool f @ enc_u32 n @ rest) = Inl DecodeError"
proof -
  have "dec_vec dec_RelayerInstruction (enc_u32 n @ rest) = None"
    using assms by (intro dec_vec_short consuming_dec_RelayerInstruction)
  then show ?thesis
    by (simp add: decode_def dec_RelayerTransaction_def dec_bool_enc)
qed

lemma dec_RelayerAccount_count:
  assumes "valid_Pubkey prog" and "k < 2 ^ 32" and "length rest < k"
  shows "dec_RelayerInstruction (prog @ enc_u32 k @ rest) = None"
proof -
  have "dec_vec dec_RelayerAccount (enc_u32 k @ rest) = None"
    using assms by (intro dec_vec_short consuming_dec_RelayerAccount)
  with assms(1) show ?thesis
    by (simp add: dec_RelayerInstruction_def dec_fixed_append valid_Pubkey_def)
qed

lemma dec_RelayerData_count:
  assumes "valid_Pubkey prog" and "valid_len as" and "list_all valid_RelayerAccount as"
    and "m < 2 ^ 32" and "length rest < m"
  shows "dec_RelayerInstruction (prog @ enc_vec enc_RelayerAccount as @ enc_u32 m @ rest) = None"
proof -
  have "dec_vec dec_RelayerData (enc_u32 m @ rest) = None"
    using assms by (intro dec_vec_short consuming_dec_RelayerData)
  moreover have "dec_vec dec_RelayerAccount (enc_vec enc_RelayerAccount as @ r) = Some (as, r)" for r
    using assms by (intro dec_vec_enc) (simp_all add: dec_RelayerAccount_enc list_all_iff)
  ultimately show ?thesis using assms(1)
    by (simp add: dec_RelayerInstruction_def dec_fixed_append valid_Pubkey_def)
qed

lemma dec_Bytes_count:
  assumes "l < 2 ^ 32" and "length rest < l"
  shows "dec_RelayerData (0 # enc_u32 l @ rest) = None"
proof -
  have "dec_vec dec_u8 (enc_u32 l @ rest) = None"
    using assms by (intro dec_vec_short consuming_dec_u8)
  then show ?thesis by simp
qed

lemma at_account_Nil: "at_account prog k [] rest = prog @ enc_u32 k @ rest"
  by (simp add: at_account_def)

lemma at_data_Nil: "at_data prog as m [] rest = prog @ enc_vec enc_RelayerAccount as @ enc_u32 m @ rest"
  by (simp add: at_data_def)

section \<open>Properties of the conversion and of the relayer\<close>

subsection \<open>Conversion\<close>

lemma concat_swap_iff:
  "(pre @ a @ b @ post = pre @ b @ a @ post) = (a @ b = b @ a)"
proof
  assume "pre @ a @ b @ post = pre @ b @ a @ post"
  then have "(a @ b) @ post = (b @ a) @ post" by simp
  then show "a @ b = b @ a" by (simp only: append_same_eq)
next
  assume "a @ b = b @ a"
  then have "(a @ b) @ post = (b @ a) @ post" by simp
  then show "pre @ a @ b @ post = pre @ b @ a @ post" by simp
qed

lemma resolve_accounts_eq:
  "resolve_accounts c as acc =
     (map (convert_account c) as, acc + sum_list (map requested_lamports as))"
  by (induction as arbitrary: acc) (simp_all add: resolve_account_def)

lemma materialize_eq:
  "materialize c i acc =
     (convert_instruction c i, acc + sum_list (map requested_lamports (accounts i)))"
  by (simp add: materialize_def resolve_accounts_eq convert_instruction_def)

lemma materialize_all_eq:
  "materialize_all c is acc =
     (map (convert_instruction c) is,
      acc + sum_list (map requested_lamports (concat (map accounts is))))"
  by (induction "is" arbitrary: acc) (simp_all add: materialize_eq)

lemma requested_funding_requirement: "funding_requirement c t = requested t"
  by (simp add: funding_requirement_def requested_def materialize_all_eq)

lemma requested_example_final: "requested example_final = 1000"
  by (simp add: requested_def example_final_def)

subsection \<open>The loop\<close>

lemma discover_chain:
  assumes "ds \<noteq> []"
    and "\<forall>k. Suc k < length ds \<longrightarrow>
           \<not> is_final (ds ! k) \<and> next_transaction simulate c (ds ! k) = Inr (ds ! Suc k)"
    and "is_final (last ds)"
  shows "discover simulate c r (hd ds) = Some (Inr (r + (length ds - 1), last ds))"
  using assms
proof (induction ds arbitrary: r)
  case Nil
  then show ?case by simp
next
  case (Cons d ds)
  note IH = Cons.IH and prems = Cons.prems
  show ?case
  proof (cases ds)
    case Nil
    with prems show ?thesis by (simp add: discover.simps)
  next
    case (Cons d' ds')
    from prems(2) [rule_format, of 0] Cons
    have nf: "\<not> is_final d" and nx: "next_transaction simulate c d = Inr d'" by simp_all
    have "ds \<noteq> []" using Cons by simp
    moreover have "\<forall>k. Suc k < length ds \<longrightarrow>
           \<not> is_final (ds ! k) \<and> next_transaction simulate c (ds ! k) = Inr (ds ! Suc k)"
    proof (intro allI impI)
      fix k assume "Suc k < length ds"
      with prems(2) [rule_format, of "Suc k"]
      show "\<not> is_final (ds ! k) \<and> next_transaction simulate c (ds ! k) = Inr (ds ! Suc k)"
        by simp
    qed
    moreover have "is_final (last ds)" using prems(3) Cons by simp
    ultimately have "discover simulate c (Suc r) (hd ds)
        = Some (Inr (Suc r + (length ds - 1), last ds))"
      by (rule IH)
    with nf nx Cons show ?thesis
      by (subst discover.simps) simp
  qed
qed

lemma decode_error: "decode bs = Inl e \<Longrightarrow> e = DecodeError"
  by (auto simp: decode_def split: option.splits if_splits)

lemma next_transaction_error:
  "next_transaction simulate c t = Inl e \<Longrightarrow> e = SimulationFailure \<or> e = DecodeError"
  by (auto simp: next_transaction_def split: option.splits dest: decode_error)

lemma discover_result:
  assumes some: "discover simulate c r t = Some y"
  shows "y = Inl SimulationFailure \<or> y = Inl DecodeError \<or> (\<exists>n u. y = Inr (n, u) \<and> is_final u)"
proof (rule discover.raw_induct
    [where P = "\<lambda>s' c' r t y. y = Inl SimulationFailure \<or> y = Inl DecodeError \<or>
                  (\<exists>n u. y = Inr (n, u) \<and> is_final u)", OF _ some])
  fix discover' s' c' rounds t y
  assume IH: "\<And>s' c' r t y. discover' s' c' r t = Some y \<Longrightarrow>
      y = Inl SimulationFailure \<or> y = Inl DecodeError \<or> (\<exists>n u. y = Inr (n, u) \<and> is_final u)"
    and body: "(if is_final t then Some (Inr (rounds, t))
        else case next_transaction s' c' t of Inl e \<Rightarrow> Some (Inl e)
             | Inr t' \<Rightarrow> discover' s' c' (Suc rounds) t') = Some y"
  show "y = Inl SimulationFailure \<or> y = Inl DecodeError \<or> (\<exists>n u. y = Inr (n, u) \<and> is_final u)"
  proof (cases "is_final t")
    case True
    with body show ?thesis by auto
  next
    case False
    show ?thesis
    proof (cases "next_transaction s' c' t")
      case (Inl e)
      with False body have "y = Inl e" by simp
      with next_transaction_error [OF Inl] show ?thesis by auto
    next
      case (Inr t')
      with False body have "discover' s' c' (Suc rounds) t' = Some y" by simp
      then show ?thesis by (rule IH)
    qed
  qed
qed

lemma discover_not_MaxRoundsExceeded:
  "discover simulate c r t \<noteq> Some (Inl MaxRoundsExceeded)"
  using discover_result [of simulate c r t "Inl MaxRoundsExceeded"] by auto

lemma discover_leaves_chain:
  assumes chain: "\<And>k. \<not> is_final (d k) \<and> next_transaction simulate c (d k) = Inr (d (Suc k))"
    and some: "discover simulate c r t = Some y"
  shows "\<forall>k. t \<noteq> d k"
proof -
  have "simulate = simulate \<longrightarrow> c = c \<longrightarrow> (\<forall>k. t \<noteq> d k)"
  proof (rule discover.raw_induct
      [where P = "\<lambda>s' c' r t y. s' = simulate \<longrightarrow> c' = c \<longrightarrow> (\<forall>k. t \<noteq> d k)", OF _ some])
    fix discover' s' c' rounds t y
    assume IH: "\<And>s' c' r t y. discover' s' c' r t = Some y \<Longrightarrow>
        s' = simulate \<longrightarrow> c' = c \<longrightarrow> (\<forall>k. t \<noteq> d k)"
      and body: "(if is_final t then Some (Inr (rounds, t))
          else case next_transaction s' c' t of Inl e \<Rightarrow> Some (Inl e)
               | Inr t' \<Rightarrow> discover' s' c' (Suc rounds) t') = Some y"
    show "s' = simulate \<longrightarrow> c' = c \<longrightarrow> (\<forall>k. t \<noteq> d k)"
    proof (intro impI allI notI)
      fix k assume s: "s' = simulate" and c: "c' = c" and t: "t = d k"
      from chain [of k] t s c
      have nf: "\<not> is_final t" and nx: "next_transaction s' c' t = Inr (d (Suc k))" by simp_all
      with body have "discover' s' c' (Suc rounds) (d (Suc k)) = Some y" by simp
      from IH [OF this] s c show False by blast
    qed
  qed
  then show ?thesis by simp
qed

lemma discover_diverges:
  assumes "\<And>k. \<not> is_final (d k) \<and> next_transaction simulate c (d k) = Inr (d (Suc k))"
  shows "discover simulate c r (d 0) = None"
proof (cases "discover simulate c r (d 0)")
  case None
  then show ?thesis .
next
  case (Some y)
  from discover_leaves_chain [of d simulate c, OF assms Some] show ?thesis by blast
qed

lemma valid_example_first: "valid_RelayerTransaction example_first"
  by (simp add: example_first_def valid_RelayerTransaction_def valid_RelayerInstruction_def
      valid_len_def valid_Pubkey_def)

lemma valid_example_final: "valid_RelayerTransaction example_final"
  by (simp add: example_final_def valid_RelayerTransaction_def valid_RelayerInstruction_def
      valid_len_def valid_Pubkey_def)

lemma decode_encode_valid:
  "valid_RelayerTransaction t \<Longrightarrow> instructions t \<noteq> [] \<Longrightarrow> decode (encode t) = Inr t"
  using dec_RelayerTransaction_enc [of t "[]"] by (simp add: decode_def)

lemma decode_not_empty: "decode bs = Inr t \<Longrightarrow> instructions t \<noteq> []"
  by (auto simp: decode_def split: option.splits if_splits)

lemma next_transaction_not_empty:
  "next_transaction simulate c t = Inr t' \<Longrightarrow> instructions t' \<noteq> []"
  by (auto simp: next_transaction_def split: option.splits dest: decode_not_empty)

lemma discover_not_empty:
  assumes some: "discover simulate c r t = Some y"
  shows "instructions t \<noteq> [] \<longrightarrow> (\<forall>n u. y = Inr (n, u) \<longrightarrow> instructions u \<noteq> [])"
proof (rule discover.raw_induct
    [where P = "\<lambda>s' c' r t y. instructions t \<noteq> [] \<longrightarrow>
                  (\<forall>n u. y = Inr (n, u) \<longrightarrow> instructions u \<noteq> [])", OF _ some])
  fix discover' s' c' rounds t y
  assume IH: "\<And>s' c' r t y. discover' s' c' r t = Some y \<Longrightarrow>
      instructions t \<noteq> [] \<longrightarrow> (\<forall>n u. y = Inr (n, u) \<longrightarrow> instructions u \<noteq> [])"
    and body: "(if is_final t then Some (Inr (rounds, t))
        else case next_transaction s' c' t of Inl e \<Rightarrow> Some (Inl e)
             | Inr t' \<Rightarrow> discover' s' c' (Suc rounds) t') = Some y"
  show "instructions t \<noteq> [] \<longrightarrow> (\<forall>n u. y = Inr (n, u) \<longrightarrow> instructions u \<noteq> [])"
  proof (cases "is_final t")
    case True
    with body show ?thesis by auto
  next
    case False
    show ?thesis
    proof (cases "next_transaction s' c' t")
      case (Inl e)
      with False body show ?thesis by auto
    next
      case (Inr t')
      with False body have "discover' s' c' (Suc rounds) t' = Some y" by simp
      from IH [OF this] next_transaction_not_empty [OF Inr] show ?thesis by simp
    qed
  qed
qed

lemma relayer_discover_not_empty:
  assumes "relayer_discover getAccountInfo simulate c address = Some (Inr (n, t))"
  shows "instructions t \<noteq> []"
proof -
  from assms obtain bytes t0 where d: "decode bytes = Inr t0"
    and l: "discover simulate c 1 t0 = Some (Inr (n, t))"
    by (auto simp: relayer_discover_def split: option.splits sum.splits)
  from discover_not_empty [OF l] decode_not_empty [OF d] show ?thesis by simp
qed

lemma not_empty_example_first: "instructions example_first \<noteq> []"
  by (simp add: example_first_def)

lemma not_empty_example_final: "instructions example_final \<noteq> []"
  by (simp add: example_final_def)

lemma relayer_discover_enters_loop:
  "getAccountInfo address = Some bytes \<Longrightarrow> decode bytes = Inr t \<Longrightarrow>
   relayer_discover getAccountInfo simulate c address = discover simulate c 1 t"
  by (simp add: relayer_discover_def)

lemma relayer_discover_no_account:
  "getAccountInfo address = None \<Longrightarrow>
   relayer_discover getAccountInfo simulate c address = Some (Inl AccountNotFoundError)"
  by (simp add: relayer_discover_def)

lemma next_example_first:
  "next_transaction (\<lambda>ixs. Some (encode example_first)) example_context example_first
     = Inr example_first"
  by (simp add: next_transaction_def decode_encode_valid valid_example_first
      not_empty_example_first)

section \<open>The hash of the seed string\<close>

text \<open>The steps of a round on a state written out, for evaluation.\<close>

lemma upt_5: "[0..<5] = [0, 1, 2, 3, 4]"
  by (simp add: upt_rec [of _ 5])

lemma upt_25:
  "[0..<25] = [0, 1, 2, 3, 4, 5, 6, 7, 8, 9, 10, 11, 12, 13, 14, 15, 16, 17, 18, 19, 20, 21, 22,
               23, 24]"
  by (simp add: upt_rec [of _ 25])

lemma theta_C_unrolled:
  "theta_C
     [a0, a1, a2, a3, a4, a5, a6, a7, a8, a9, a10, a11, a12, a13, a14, a15, a16, a17, a18, a19,
      a20, a21, a22, a23, a24] =
     [a0 XOR a5 XOR a10 XOR a15 XOR a20, a1 XOR a6 XOR a11 XOR a16 XOR a21,
      a2 XOR a7 XOR a12 XOR a17 XOR a22, a3 XOR a8 XOR a13 XOR a18 XOR a23,
      a4 XOR a9 XOR a14 XOR a19 XOR a24]"
  by (simp add: theta_C_def upt_5)

lemma theta_D_unrolled:
  "theta_D [c0, c1, c2, c3, c4] =
     [c4 XOR rotl64 c1 1, c0 XOR rotl64 c2 1, c1 XOR rotl64 c3 1, c2 XOR rotl64 c4 1,
      c3 XOR rotl64 c0 1]"
  by (simp add: theta_D_def upt_5)

lemma theta_apply_unrolled:
  "theta_apply [d0, d1, d2, d3, d4]
     [a0, a1, a2, a3, a4, a5, a6, a7, a8, a9, a10, a11, a12, a13, a14, a15, a16, a17, a18, a19,
      a20, a21, a22, a23, a24] =
     [a0 XOR d0, a1 XOR d1, a2 XOR d2, a3 XOR d3, a4 XOR d4, a5 XOR d0, a6 XOR d1, a7 XOR d2,
      a8 XOR d3, a9 XOR d4, a10 XOR d0, a11 XOR d1, a12 XOR d2, a13 XOR d3, a14 XOR d4,
      a15 XOR d0, a16 XOR d1, a17 XOR d2, a18 XOR d3, a19 XOR d4, a20 XOR d0, a21 XOR d1,
      a22 XOR d2, a23 XOR d3, a24 XOR d4]"
  by (simp add: theta_apply_def upt_25)

lemma rho_pi_unrolled:
  "rho_pi
     [a0, a1, a2, a3, a4, a5, a6, a7, a8, a9, a10, a11, a12, a13, a14, a15, a16, a17, a18, a19,
      a20, a21, a22, a23, a24] =
     [rotl64 a0 0, rotl64 a6 44, rotl64 a12 43, rotl64 a18 21, rotl64 a24 14, rotl64 a3 28,
      rotl64 a9 20, rotl64 a10 3, rotl64 a16 45, rotl64 a22 61, rotl64 a1 1, rotl64 a7 6,
      rotl64 a13 25, rotl64 a19 8, rotl64 a20 18, rotl64 a4 27, rotl64 a5 36, rotl64 a11 10,
      rotl64 a17 15, rotl64 a23 56, rotl64 a2 62, rotl64 a8 55, rotl64 a14 39, rotl64 a15 41,
      rotl64 a21 2]"
  by (simp add: rho_pi_def PI_SRC_def RHO_def upt_25)

lemma chi_unrolled:
  "chi
     [b0, b1, b2, b3, b4, b5, b6, b7, b8, b9, b10, b11, b12, b13, b14, b15, b16, b17, b18, b19,
      b20, b21, b22, b23, b24] =
     [b0 XOR (NOT b1 AND b2), b1 XOR (NOT b2 AND b3), b2 XOR (NOT b3 AND b4),
      b3 XOR (NOT b4 AND b0), b4 XOR (NOT b0 AND b1), b5 XOR (NOT b6 AND b7),
      b6 XOR (NOT b7 AND b8), b7 XOR (NOT b8 AND b9), b8 XOR (NOT b9 AND b5),
      b9 XOR (NOT b5 AND b6), b10 XOR (NOT b11 AND b12), b11 XOR (NOT b12 AND b13),
      b12 XOR (NOT b13 AND b14), b13 XOR (NOT b14 AND b10), b14 XOR (NOT b10 AND b11),
      b15 XOR (NOT b16 AND b17), b16 XOR (NOT b17 AND b18), b17 XOR (NOT b18 AND b19),
      b18 XOR (NOT b19 AND b15), b19 XOR (NOT b15 AND b16), b20 XOR (NOT b21 AND b22),
      b21 XOR (NOT b22 AND b23), b22 XOR (NOT b23 AND b24), b23 XOR (NOT b24 AND b20),
      b24 XOR (NOT b20 AND b21)]"
  by (simp add: chi_def upt_25)

lemma iota_unrolled: "iota rc (a0 # A) = (a0 XOR rc) # A"
  by (simp add: iota_def)

lemmas keccak_round_defs =
  keccak_round_def theta_def theta_C_unrolled theta_D_unrolled theta_apply_unrolled
  rho_pi_unrolled chi_unrolled iota_unrolled rotl64_def

text \<open>The 24 rounds on the one block of the padded seed string.\<close>

lemma keccak_round_1:
  "keccak_round
     [0x2d726579616c6572, 0x7265766f63736964, 0x61736e6172742d79, 0x16e6f697463, 0x0, 0x0, 0x0,
      0x0, 0x0, 0x0, 0x0, 0x0, 0x0, 0x0, 0x0, 0x0, 0x8000000000000000, 0x0, 0x0, 0x0, 0x0, 0x0,
      0x0, 0x0, 0x0]
     0x1 =
     [0xc5bd98a587aeb21f, 0x83da46fdcf939a58, 0x3ecc36fb6b244d7d, 0x536ce062f260f6f,
      0x30a72d3427b0def9, 0xf7c4f175b11526f3, 0x386ad21b6874cefc, 0x7e5bc4f257b6964b,
      0x26615cf317347670, 0x5646a49c3fd4b838, 0x79435fb95f6c2b89, 0xbd56384a695c69be,
      0xd1d4eb48b8c3f6fd, 0xec4b188d3576ab9a, 0x33673bdd6b27d31f, 0xf5ef4ff42a87244e,
      0xc6743c5e8cafb5ec, 0x13c6cf3831dc07b3, 0x3e555240da547b62, 0x73615364255abd8d,
      0xa48ac4bcf1b1af76, 0xb99029f7b5210b9f, 0xea8d278b70658c54, 0x8d2093d9343cbcb9,
      0xa662dfed1618ee03]"
  by (simp add: keccak_round_defs)

lemma keccak_round_2:
  "keccak_round
     [0xc5bd98a587aeb21f, 0x83da46fdcf939a58, 0x3ecc36fb6b244d7d, 0x536ce062f260f6f,
      0x30a72d3427b0def9, 0xf7c4f175b11526f3, 0x386ad21b6874cefc, 0x7e5bc4f257b6964b,
      0x26615cf317347670, 0x5646a49c3fd4b838, 0x79435fb95f6c2b89, 0xbd56384a695c69be,
      0xd1d4eb48b8c3f6fd, 0xec4b188d3576ab9a, 0x33673bdd6b27d31f, 0xf5ef4ff42a87244e,
      0xc6743c5e8cafb5ec, 0x13c6cf3831dc07b3, 0x3e555240da547b62, 0x73615364255abd8d,
      0xa48ac4bcf1b1af76, 0xb99029f7b5210b9f, 0xea8d278b70658c54, 0x8d2093d9343cbcb9,
      0xa662dfed1618ee03]
     0x8082 =
     [0x87ad94d20fe4d254, 0xc26d2a40510f7fa4, 0x40794295a63d654b, 0x4d7fe7a034eeeaeb,
      0x73d1ef15e4f05ead, 0xcabcdc0da6f55470, 0xf24eb02c1980efaa, 0x5a5a1a5f281e5858,
      0x3b3977d14a9116b3, 0x3c28a089f129adb9, 0x9f2902f1e447d4ba, 0x53f84938360f8fad,
      0xeec02ce04198329, 0x2562c6b154c4edab, 0x41fff2653d5b7b2f, 0xb509ed594bc7ad38,
      0xe7996720137ad822, 0x659a1b46b0067b08, 0xf1f4d578ffb1412b, 0x7610201fc77987d7,
      0xaf974a1ad686695a, 0x75af31ea7aab6f87, 0xf0a7397df8c4f796, 0xfb0f9b0f9884360b,
      0x9f596d2e186cc8ed]"
  by (simp add: keccak_round_defs)

lemma keccak_round_3:
  "keccak_round
     [0x87ad94d20fe4d254, 0xc26d2a40510f7fa4, 0x40794295a63d654b, 0x4d7fe7a034eeeaeb,
      0x73d1ef15e4f05ead, 0xcabcdc0da6f55470, 0xf24eb02c1980efaa, 0x5a5a1a5f281e5858,
      0x3b3977d14a9116b3, 0x3c28a089f129adb9, 0x9f2902f1e447d4ba, 0x53f84938360f8fad,
      0xeec02ce04198329, 0x2562c6b154c4edab, 0x41fff2653d5b7b2f, 0xb509ed594bc7ad38,
      0xe7996720137ad822, 0x659a1b46b0067b08, 0xf1f4d578ffb1412b, 0x7610201fc77987d7,
      0xaf974a1ad686695a, 0x75af31ea7aab6f87, 0xf0a7397df8c4f796, 0xfb0f9b0f9884360b,
      0x9f596d2e186cc8ed]
     0x800000000000808a =
     [0x850d6743e3f0d5d2, 0x690bf70acad5e7ef, 0xc634fb45bdd1f090, 0x9af30edb2797d321,
      0x9b102de368f27574, 0x303d954542a133f0, 0xe41ed1c6d7b0be5, 0x8fe3d8096b0b2fb0,
      0x84f3e1df2f664d73, 0xd81ed93b878f7a40, 0x2ece6aa601c1189a, 0x826bfae1d4c79f06,
      0x7bea2a6339c61ebe, 0x92a4330ed84ded9e, 0xc799bf82ed54ca0a, 0xc90a00af3caa190b,
      0xea9721ecec866e13, 0xc174c98d81512268, 0x97919689931e1b85, 0x98a0554263b5351e,
      0xb58abd19ca940492, 0x885e43543796f850, 0x64989044338a2422, 0xe67e657a78a15b15,
      0xf184b1868811d38f]"
  by (simp add: keccak_round_defs)

lemma keccak_round_4:
  "keccak_round
     [0x850d6743e3f0d5d2, 0x690bf70acad5e7ef, 0xc634fb45bdd1f090, 0x9af30edb2797d321,
      0x9b102de368f27574, 0x303d954542a133f0, 0xe41ed1c6d7b0be5, 0x8fe3d8096b0b2fb0,
      0x84f3e1df2f664d73, 0xd81ed93b878f7a40, 0x2ece6aa601c1189a, 0x826bfae1d4c79f06,
      0x7bea2a6339c61ebe, 0x92a4330ed84ded9e, 0xc799bf82ed54ca0a, 0xc90a00af3caa190b,
      0xea9721ecec866e13, 0xc174c98d81512268, 0x97919689931e1b85, 0x98a0554263b5351e,
      0xb58abd19ca940492, 0x885e43543796f850, 0x64989044338a2422, 0xe67e657a78a15b15,
      0xf184b1868811d38f]
     0x8000000080008000 =
     [0xafe7cc56fbac2bda, 0x8477642a96dd68c7, 0x19fe07b42f9ae731, 0x2828b03373d16891,
      0x7504d7ba4db47089, 0x2b92a51fad655554, 0x4ef07d58c5fefabb, 0x664a848bcce7b99c,
      0xe8d34049f4e68034, 0x475dd1bf6d241e71, 0x4b02e7726d7d328e, 0xb251fa089d6b103e,
      0xe2ec68d03fb57a79, 0x14beb7f5a2a001e4, 0xfc20c7a6a68b5e90, 0xf7f524e1c7492361,
      0xbffdaf1d65f2a24a, 0x495a2c8f3afe19f0, 0x2b4d0b960cce5c05, 0x96a240668144b8d5,
      0xafc901b60dc6bec0, 0xd48456f3c24289e4, 0x871482d33de529dd, 0x530f7d2c176d193,
      0x522f3c7a68ce1247]"
  by (simp add: keccak_round_defs)

lemma keccak_round_5:
  "keccak_round
     [0xafe7cc56fbac2bda, 0x8477642a96dd68c7, 0x19fe07b42f9ae731, 0x2828b03373d16891,
      0x7504d7ba4db47089, 0x2b92a51fad655554, 0x4ef07d58c5fefabb, 0x664a848bcce7b99c,
      0xe8d34049f4e68034, 0x475dd1bf6d241e71, 0x4b02e7726d7d328e, 0xb251fa089d6b103e,
      0xe2ec68d03fb57a79, 0x14beb7f5a2a001e4, 0xfc20c7a6a68b5e90, 0xf7f524e1c7492361,
      0xbffdaf1d65f2a24a, 0x495a2c8f3afe19f0, 0x2b4d0b960cce5c05, 0x96a240668144b8d5,
      0xafc901b60dc6bec0, 0xd48456f3c24289e4, 0x871482d33de529dd, 0x530f7d2c176d193,
      0x522f3c7a68ce1247]
     0x808b =
     [0xa9c14c1c7e6e673, 0x130e803f54d41a70, 0x8ccbc809845edd90, 0x2964438fe385b41e,
      0x4789b9d8565f9a6, 0xd2731cbbc64bb8af, 0xd6771ccf593f2f, 0x315b330688e7f471,
      0xc82131d29787d4a1, 0xc49d3ebe08986e33, 0x7a6408032201a13b, 0x699b36975c2d37a0,
      0x514e225111248b9e, 0x478d7cc93c7e6163, 0x219ca4858ffc5f4e, 0x891f6db7752c7fd9,
      0x30df87e047da99c3, 0x4569812ed8a5b6bc, 0x60fa619cdcd18e47, 0x8e034d891d4706f0,
      0xde809aade00a71da, 0x8ec7139ffa30aff0, 0xedc5da5647b0585f, 0x7bd487b95bdacdf6,
      0x97dadff0110dccdf]"
  by (simp add: keccak_round_defs)

lemma keccak_round_6:
  "keccak_round
     [0xa9c14c1c7e6e673, 0x130e803f54d41a70, 0x8ccbc809845edd90, 0x2964438fe385b41e,
      0x4789b9d8565f9a6, 0xd2731cbbc64bb8af, 0xd6771ccf593f2f, 0x315b330688e7f471,
      0xc82131d29787d4a1, 0xc49d3ebe08986e33, 0x7a6408032201a13b, 0x699b36975c2d37a0,
      0x514e225111248b9e, 0x478d7cc93c7e6163, 0x219ca4858ffc5f4e, 0x891f6db7752c7fd9,
      0x30df87e047da99c3, 0x4569812ed8a5b6bc, 0x60fa619cdcd18e47, 0x8e034d891d4706f0,
      0xde809aade00a71da, 0x8ec7139ffa30aff0, 0xedc5da5647b0585f, 0x7bd487b95bdacdf6,
      0x97dadff0110dccdf]
     0x80000001 =
     [0x7a8a64ac380d653f, 0xb5ff275a5a0b17dc, 0x773deb75dc338fa9, 0x880259f8c27bb422,
      0x7314bf899b1cf2c5, 0x24c8bf84bf433cf1, 0x80a8c60df171b92b, 0x53d9800cd69553b1,
      0x6bb27da5e71cbee8, 0x82486bf7945a9e0b, 0xddfee663e3bc8148, 0xff66d43410d719ea,
      0xa0d4c010e7bdd7b0, 0x98257b9c21a711d9, 0xa99162ccfa9fa2f9, 0x7b28f954cbb00cbf,
      0xc98e242a2452420d, 0xaa1a069cfdfdf0d1, 0xdaf306c0994dc514, 0x389e30805878784,
      0xc996271950efae71, 0xca3e818a372e48c7, 0xc7edf73e0dd17936, 0xe66d38da4abf7e5f,
      0xeef30a8703ab5c3d]"
  by (simp add: keccak_round_defs)

lemma keccak_round_7:
  "keccak_round
     [0x7a8a64ac380d653f, 0xb5ff275a5a0b17dc, 0x773deb75dc338fa9, 0x880259f8c27bb422,
      0x7314bf899b1cf2c5, 0x24c8bf84bf433cf1, 0x80a8c60df171b92b, 0x53d9800cd69553b1,
      0x6bb27da5e71cbee8, 0x82486bf7945a9e0b, 0xddfee663e3bc8148, 0xff66d43410d719ea,
      0xa0d4c010e7bdd7b0, 0x98257b9c21a711d9, 0xa99162ccfa9fa2f9, 0x7b28f954cbb00cbf,
      0xc98e242a2452420d, 0xaa1a069cfdfdf0d1, 0xdaf306c0994dc514, 0x389e30805878784,
      0xc996271950efae71, 0xca3e818a372e48c7, 0xc7edf73e0dd17936, 0xe66d38da4abf7e5f,
      0xeef30a8703ab5c3d]
     0x8000000080008081 =
     [0x9d3e230e0ec9af9f, 0x3a778627c949db1f, 0x6806b7ca5eaf57ab, 0x5a26620b9089025c,
      0x4b158ed0833da2be, 0x9bce651503efb0d7, 0xc790c20cec3a705c, 0xea50d6430e7fdbc7,
      0x841b64364ed55766, 0x701ed6a1ed7cf4a2, 0xe6e4c2d42986da2c, 0x95f4d438e1a9f185,
      0x393df5b31635a9b7, 0xf24ff3dd1430e30, 0x779fd6c7012a9908, 0xd79137643aa034d4,
      0xd1a141a0a58f1161, 0xaf0a130c3dbcf466, 0x5a6f5c8486dbe6c6, 0xd20ccdc6ffc61f6,
      0xaea1be0233c1d1d3, 0x5970a9f5ba83b019, 0x59f158868d528d69, 0xc0e59ebb0d0ed860,
      0xf39f5da743bef848]"
  by (simp add: keccak_round_defs)

lemma keccak_round_8:
  "keccak_round
     [0x9d3e230e0ec9af9f, 0x3a778627c949db1f, 0x6806b7ca5eaf57ab, 0x5a26620b9089025c,
      0x4b158ed0833da2be, 0x9bce651503efb0d7, 0xc790c20cec3a705c, 0xea50d6430e7fdbc7,
      0x841b64364ed55766, 0x701ed6a1ed7cf4a2, 0xe6e4c2d42986da2c, 0x95f4d438e1a9f185,
      0x393df5b31635a9b7, 0xf24ff3dd1430e30, 0x779fd6c7012a9908, 0xd79137643aa034d4,
      0xd1a141a0a58f1161, 0xaf0a130c3dbcf466, 0x5a6f5c8486dbe6c6, 0xd20ccdc6ffc61f6,
      0xaea1be0233c1d1d3, 0x5970a9f5ba83b019, 0x59f158868d528d69, 0xc0e59ebb0d0ed860,
      0xf39f5da743bef848]
     0x8000000000008009 =
     [0x4ed34e68729d9a60, 0xdf8d2c59772e63ca, 0xb6eaad4bd8dcd4a3, 0x755f9800a0eb797f,
      0xf7a972cb248a207, 0x9c15439f373d4ba2, 0x7dc7311d0afc9c5c, 0x4e9bcc258991ccec,
      0xb185f5c8a710489, 0x85008a97e36283ec, 0x72a44896713981b0, 0xbd9a9eb79b7ad127,
      0x2b4139fa225ea437, 0xcb08d17aa5681cf4, 0x48190b34ce513c7e, 0x6be96cbfd0376f75,
      0x7cb127708458e17f, 0x24fac081689c2957, 0x4987bff4ac24c23, 0xf5f9337e9775d723,
      0x47f0bf79c35b48ff, 0x3bf6e88a539f4ec3, 0x158a5932a23bf32e, 0x4b0285407f9b110e,
      0x5dd22c77e154a149]"
  by (simp add: keccak_round_defs)

lemma keccak_round_9:
  "keccak_round
     [0x4ed34e68729d9a60, 0xdf8d2c59772e63ca, 0xb6eaad4bd8dcd4a3, 0x755f9800a0eb797f,
      0xf7a972cb248a207, 0x9c15439f373d4ba2, 0x7dc7311d0afc9c5c, 0x4e9bcc258991ccec,
      0xb185f5c8a710489, 0x85008a97e36283ec, 0x72a44896713981b0, 0xbd9a9eb79b7ad127,
      0x2b4139fa225ea437, 0xcb08d17aa5681cf4, 0x48190b34ce513c7e, 0x6be96cbfd0376f75,
      0x7cb127708458e17f, 0x24fac081689c2957, 0x4987bff4ac24c23, 0xf5f9337e9775d723,
      0x47f0bf79c35b48ff, 0x3bf6e88a539f4ec3, 0x158a5932a23bf32e, 0x4b0285407f9b110e,
      0x5dd22c77e154a149]
     0x8a =
     [0xbd34d3dcd438f11e, 0x127e631fc0df1de2, 0x3aa32933a907a5db, 0xbf31e2a71a9e5914,
      0x382225065ee2eb9e, 0xa6a8348ad0f9f42b, 0x554164bd21366a34, 0x5a109017cd6703ea,
      0x83f8a281664baeb8, 0xc7179ab41fc6434b, 0x2ee6e16a52952065, 0xb3b66fd34a0922a9,
      0x819dd3429791b24e, 0xdfbcf96077017d34, 0x7aa525e9ac623dc0, 0xda11108547e891d3,
      0xe756a434173da499, 0x53093f3a9fbf68d5, 0x24dd9fda6d6884f4, 0xf0fff6275a01bb88,
      0x46949c0d63be0a79, 0xdf16c566b968bef8, 0x4500dd1de6f1dd, 0x66c92d757cca5dab,
      0x753991ca844b6463]"
  by (simp add: keccak_round_defs)

lemma keccak_round_10:
  "keccak_round
     [0xbd34d3dcd438f11e, 0x127e631fc0df1de2, 0x3aa32933a907a5db, 0xbf31e2a71a9e5914,
      0x382225065ee2eb9e, 0xa6a8348ad0f9f42b, 0x554164bd21366a34, 0x5a109017cd6703ea,
      0x83f8a281664baeb8, 0xc7179ab41fc6434b, 0x2ee6e16a52952065, 0xb3b66fd34a0922a9,
      0x819dd3429791b24e, 0xdfbcf96077017d34, 0x7aa525e9ac623dc0, 0xda11108547e891d3,
      0xe756a434173da499, 0x53093f3a9fbf68d5, 0x24dd9fda6d6884f4, 0xf0fff6275a01bb88,
      0x46949c0d63be0a79, 0xdf16c566b968bef8, 0x4500dd1de6f1dd, 0x66c92d757cca5dab,
      0x753991ca844b6463]
     0x88 =
     [0x26e4dc54fe732165, 0x78cb1a84adc2f946, 0x83c67cf0a669bc9f, 0x22cf7b3363b8c652,
      0xbbd0df0d1294fbeb, 0x18d28098f0d341e1, 0x35f9a5a77b30850, 0xa8d8365352980615,
      0xe003a155c0f85409, 0xd2c5d8838297fb31, 0xa68ac712d35953e5, 0x67cb3d9b0fbfc6f5,
      0x94d42b8876b0a3ee, 0x51e226b4f385b8ac, 0xcf9457ce7649f151, 0x90d1f416e47a18c,
      0x89364e91f6edb9af, 0x152997edf253e1be, 0xde55f5f2636ef19, 0xa026060108e36c67,
      0xad2b6db0af929372, 0xd9a9b05945ab70d, 0x48bc6a041d9db529, 0xb9822c37aded7abd,
      0x58270146b0c4073d]"
  by (simp add: keccak_round_defs)

lemma keccak_round_11:
  "keccak_round
     [0x26e4dc54fe732165, 0x78cb1a84adc2f946, 0x83c67cf0a669bc9f, 0x22cf7b3363b8c652,
      0xbbd0df0d1294fbeb, 0x18d28098f0d341e1, 0x35f9a5a77b30850, 0xa8d8365352980615,
      0xe003a155c0f85409, 0xd2c5d8838297fb31, 0xa68ac712d35953e5, 0x67cb3d9b0fbfc6f5,
      0x94d42b8876b0a3ee, 0x51e226b4f385b8ac, 0xcf9457ce7649f151, 0x90d1f416e47a18c,
      0x89364e91f6edb9af, 0x152997edf253e1be, 0xde55f5f2636ef19, 0xa026060108e36c67,
      0xad2b6db0af929372, 0xd9a9b05945ab70d, 0x48bc6a041d9db529, 0xb9822c37aded7abd,
      0x58270146b0c4073d]
     0x80008009 =
     [0xef821af04cac2989, 0x97c2bf5eda50f48, 0xe2205ab5a435632d, 0xbafca642a9229f6c,
      0xc70811e78ed7139e, 0xf22ecb433dec10b9, 0xf66eff14140ac999, 0x5ce30c231e2de5fe,
      0xcc5ea662478746bd, 0xd78b97a0439bf559, 0x5198165fddedc45d, 0xa40a39bef2d07c49,
      0x5445bb95b21e7b29, 0x5bd665a1b4b0ccb6, 0x25215b5ce9331b5, 0xf4bad23c331f7024,
      0x44caa3beb94ca24c, 0xb776c7361d222e7d, 0xf32cfbabd72da5b1, 0xeca6d41db33cbaca,
      0x96c992d519ce7f96, 0x1c4e8ecdcfba1ca3, 0xc1ca9c79fc852008, 0xb1933c88f77880b5,
      0xfeeb02b189a035d7]"
  by (simp add: keccak_round_defs)

lemma keccak_round_12:
  "keccak_round
     [0xef821af04cac2989, 0x97c2bf5eda50f48, 0xe2205ab5a435632d, 0xbafca642a9229f6c,
      0xc70811e78ed7139e, 0xf22ecb433dec10b9, 0xf66eff14140ac999, 0x5ce30c231e2de5fe,
      0xcc5ea662478746bd, 0xd78b97a0439bf559, 0x5198165fddedc45d, 0xa40a39bef2d07c49,
      0x5445bb95b21e7b29, 0x5bd665a1b4b0ccb6, 0x25215b5ce9331b5, 0xf4bad23c331f7024,
      0x44caa3beb94ca24c, 0xb776c7361d222e7d, 0xf32cfbabd72da5b1, 0xeca6d41db33cbaca,
      0x96c992d519ce7f96, 0x1c4e8ecdcfba1ca3, 0xc1ca9c79fc852008, 0xb1933c88f77880b5,
      0xfeeb02b189a035d7]
     0x8000000a =
     [0x481f9fb43e4a10ca, 0x1ec49f194d408013, 0xb87afac051f5dbfb, 0xeb48416c5af08dd8,
      0xfe463fc739023778, 0x224cd50b27df4bab, 0xf6825235084e15ff, 0xb0e6bbe8db5526f3,
      0x76f1d69ed94a3ca6, 0xb32b210226b18cc7, 0xbec0adc977b99d02, 0x7a02c225c94244ad,
      0xbf586527f79de892, 0xc2e83446c44f27df, 0x5f6d3c58345e0751, 0x77cbfe22baa4676a,
      0xfbf3438f58f0f569, 0xa7481b9fe5ae6c89, 0xb2ec2c27a2e41596, 0x6c38908d387cdfd6,
      0xed8e7e7c95f8fbb, 0x7e29e5ab7d4c21a0, 0x34c2a018cb4c8e50, 0x9a4b29573f657581,
      0xd9d19d4e6a34758c]"
  by (simp add: keccak_round_defs)

lemma keccak_round_13:
  "keccak_round
     [0x481f9fb43e4a10ca, 0x1ec49f194d408013, 0xb87afac051f5dbfb, 0xeb48416c5af08dd8,
      0xfe463fc739023778, 0x224cd50b27df4bab, 0xf6825235084e15ff, 0xb0e6bbe8db5526f3,
      0x76f1d69ed94a3ca6, 0xb32b210226b18cc7, 0xbec0adc977b99d02, 0x7a02c225c94244ad,
      0xbf586527f79de892, 0xc2e83446c44f27df, 0x5f6d3c58345e0751, 0x77cbfe22baa4676a,
      0xfbf3438f58f0f569, 0xa7481b9fe5ae6c89, 0xb2ec2c27a2e41596, 0x6c38908d387cdfd6,
      0xed8e7e7c95f8fbb, 0x7e29e5ab7d4c21a0, 0x34c2a018cb4c8e50, 0x9a4b29573f657581,
      0xd9d19d4e6a34758c]
     0x8000808b =
     [0xc0c8e0b1900b99b1, 0xef3cfd395aaa4b2b, 0x319892fb5c08ce14, 0xe2208e39f7932e3b,
      0x9caf33f35ea79f49, 0x9f04d53fa6a94835, 0xac05572f61486585, 0x29b28e60e56e25b5,
      0x8bf6b5f040dc52, 0xb99e0a17cb8a1914, 0x373a99bf8610e867, 0x2e55d931971781d2,
      0xc4c935d9a358f1d8, 0x5bfb1ecc0074850d, 0x6bcece6a595d1da2, 0xaccdde15c85ed3f,
      0x5a3484e9e9ae0961, 0x7c6e1a6c8b9b365e, 0xfb9bfc5ede36a49d, 0x7ad0f7f2c295f06f,
      0x505206a91b381ccf, 0x46af2a4de738edf2, 0xee564138cda27d38, 0x52f7da663c2e47a4,
      0x6adc2021d8976562]"
  by (simp add: keccak_round_defs)

lemma keccak_round_14:
  "keccak_round
     [0xc0c8e0b1900b99b1, 0xef3cfd395aaa4b2b, 0x319892fb5c08ce14, 0xe2208e39f7932e3b,
      0x9caf33f35ea79f49, 0x9f04d53fa6a94835, 0xac05572f61486585, 0x29b28e60e56e25b5,
      0x8bf6b5f040dc52, 0xb99e0a17cb8a1914, 0x373a99bf8610e867, 0x2e55d931971781d2,
      0xc4c935d9a358f1d8, 0x5bfb1ecc0074850d, 0x6bcece6a595d1da2, 0xaccdde15c85ed3f,
      0x5a3484e9e9ae0961, 0x7c6e1a6c8b9b365e, 0xfb9bfc5ede36a49d, 0x7ad0f7f2c295f06f,
      0x505206a91b381ccf, 0x46af2a4de738edf2, 0xee564138cda27d38, 0x52f7da663c2e47a4,
      0x6adc2021d8976562]
     0x800000000000008b =
     [0xd9d0176901bf5c04, 0x4a9b1228b0c7a26d, 0x51e48eae3431d56, 0x8231919f0e7814c8,
      0xa38034d96406e5ec, 0x504713242012d39d, 0xe5858a349428c3ab, 0x42a23628b123c954,
      0xac6d9a9943f78cd5, 0xbe732308827bc7ef, 0x4145f7c8ca16464c, 0x336c94eb0c35a818,
      0x806729a1ef5a2d68, 0xbc59a1011da4560a, 0x79fe2611030e0d28, 0xee88beb9cd6904ef,
      0xc35b71918184e6a3, 0x710919c81ae7b70d, 0x23874552be878610, 0x5ef4cbeaeb482f1b,
      0x7201d76fdc750b71, 0x5499d8022c8d56dc, 0xfb8a2c8f915278ca, 0x3ae934efed8c579c,
      0xa13eec62a0e64ff7]"
  by (simp add: keccak_round_defs)

lemma keccak_round_15:
  "keccak_round
     [0xd9d0176901bf5c04, 0x4a9b1228b0c7a26d, 0x51e48eae3431d56, 0x8231919f0e7814c8,
      0xa38034d96406e5ec, 0x504713242012d39d, 0xe5858a349428c3ab, 0x42a23628b123c954,
      0xac6d9a9943f78cd5, 0xbe732308827bc7ef, 0x4145f7c8ca16464c, 0x336c94eb0c35a818,
      0x806729a1ef5a2d68, 0xbc59a1011da4560a, 0x79fe2611030e0d28, 0xee88beb9cd6904ef,
      0xc35b71918184e6a3, 0x710919c81ae7b70d, 0x23874552be878610, 0x5ef4cbeaeb482f1b,
      0x7201d76fdc750b71, 0x5499d8022c8d56dc, 0xfb8a2c8f915278ca, 0x3ae934efed8c579c,
      0xa13eec62a0e64ff7]
     0x8000000000008089 =
     [0x9c221fa0a4596b4e, 0x222ba0b30b40d038, 0xcb5ab54a10e90bfe, 0x29dabc0d668b6a20,
      0x825675b43e3cb080, 0x885cc1d49ec879f0, 0x41f540f14ab9da7d, 0x7b54fc0a9967f346,
      0x8bb619ba08771af7, 0xdddea7d2a279a5c7, 0x44b9941f701db1, 0xf149da0d8a13f0b7,
      0x6f7423dc89cef75d, 0x2864ef592790161c, 0xdeb0e2327fd01a98, 0x2dba49d53c0ae378,
      0x5652fd1d86d56a59, 0xa52bf12e320e2e3e, 0x57f0c3f7ccdf037, 0xec448f729892a1fe,
      0x61a54bb99549098, 0xfedb99aa5a941192, 0xf8451a8fb177015c, 0x2364925c4de07010,
      0x902b1126ead39634]"
  by (simp add: keccak_round_defs)

lemma keccak_round_16:
  "keccak_round
     [0x9c221fa0a4596b4e, 0x222ba0b30b40d038, 0xcb5ab54a10e90bfe, 0x29dabc0d668b6a20,
      0x825675b43e3cb080, 0x885cc1d49ec879f0, 0x41f540f14ab9da7d, 0x7b54fc0a9967f346,
      0x8bb619ba08771af7, 0xdddea7d2a279a5c7, 0x44b9941f701db1, 0xf149da0d8a13f0b7,
      0x6f7423dc89cef75d, 0x2864ef592790161c, 0xdeb0e2327fd01a98, 0x2dba49d53c0ae378,
      0x5652fd1d86d56a59, 0xa52bf12e320e2e3e, 0x57f0c3f7ccdf037, 0xec448f729892a1fe,
      0x61a54bb99549098, 0xfedb99aa5a941192, 0xf8451a8fb177015c, 0x2364925c4de07010,
      0x902b1126ead39634]
     0x8000000000008003 =
     [0xa4cd241a16fb621a, 0x4e5bd43072ce444f, 0x39d9cc014ea1f336, 0x313b83940bf5f9b2,
      0x461d775f43419c05, 0x1531e0acc59f0637, 0x66af98f39f74ef9b, 0xd875c32485dbd700,
      0x6d70fbc75a91603, 0xf34389ee808b003f, 0xb33db00d7b1bcdd0, 0x7be21a7f1ef1a99d,
      0xd70e1f9362e18fa4, 0x41bfc260bdbf0e0f, 0x556ed54c2b1a1dc3, 0xc833dd7efa8bd788,
      0x5d033f0133702c2, 0x5692757f3bb54f0b, 0x1466aa3a36de908, 0xb8dfff4f61995162,
      0xf85a81aeb551d1c5, 0x2dc9acab63407921, 0x738355309aa161c9, 0xb9ea6fc9ae240b01,
      0x1002833f336093eb]"
  by (simp add: keccak_round_defs)

lemma keccak_round_17:
  "keccak_round
     [0xa4cd241a16fb621a, 0x4e5bd43072ce444f, 0x39d9cc014ea1f336, 0x313b83940bf5f9b2,
      0x461d775f43419c05, 0x1531e0acc59f0637, 0x66af98f39f74ef9b, 0xd875c32485dbd700,
      0x6d70fbc75a91603, 0xf34389ee808b003f, 0xb33db00d7b1bcdd0, 0x7be21a7f1ef1a99d,
      0xd70e1f9362e18fa4, 0x41bfc260bdbf0e0f, 0x556ed54c2b1a1dc3, 0xc833dd7efa8bd788,
      0x5d033f0133702c2, 0x5692757f3bb54f0b, 0x1466aa3a36de908, 0xb8dfff4f61995162,
      0xf85a81aeb551d1c5, 0x2dc9acab63407921, 0x738355309aa161c9, 0xb9ea6fc9ae240b01,
      0x1002833f336093eb]
     0x8000000000008002 =
     [0x913ce8d148ab5b5c, 0x449841261806c286, 0x98b012fdace81e5, 0xb0369645df30b5ea,
      0x82b29b8666db0a6b, 0x29312ffa1b6740e7, 0xb13856a40b899ed8, 0x6c7fa32e2ac3ece0,
      0xd1aacca3e4693cb7, 0x922651579419ade9, 0xb3abff4a1bec4e0e, 0xd1431bc6ece2604f,
      0x292c01af807a61b, 0xd0efa1327065750d, 0x17b424a563872be0, 0x73119c87976da27d,
      0x98cb61742cf706e6, 0x915e9ab10f2294b0, 0xd76a96e80cca5a54, 0x3dd1e2c803c0b58a,
      0xd3eaa4df94d127e9, 0x598d0fc8ad149a02, 0x3db00e7d352e5cd5, 0xa30f78cd02227bb5,
      0xe81fcfca7cefe8c6]"
  by (simp add: keccak_round_defs)

lemma keccak_round_18:
  "keccak_round
     [0x913ce8d148ab5b5c, 0x449841261806c286, 0x98b012fdace81e5, 0xb0369645df30b5ea,
      0x82b29b8666db0a6b, 0x29312ffa1b6740e7, 0xb13856a40b899ed8, 0x6c7fa32e2ac3ece0,
      0xd1aacca3e4693cb7, 0x922651579419ade9, 0xb3abff4a1bec4e0e, 0xd1431bc6ece2604f,
      0x292c01af807a61b, 0xd0efa1327065750d, 0x17b424a563872be0, 0x73119c87976da27d,
      0x98cb61742cf706e6, 0x915e9ab10f2294b0, 0xd76a96e80cca5a54, 0x3dd1e2c803c0b58a,
      0xd3eaa4df94d127e9, 0x598d0fc8ad149a02, 0x3db00e7d352e5cd5, 0xa30f78cd02227bb5,
      0xe81fcfca7cefe8c6]
     0x8000000000000080 =
     [0x9f4ed7fcf94cb31, 0x4e90e8c069a415d5, 0x216e43e85d401869, 0xd254c76834c7e6ed,
      0xe2926b00a56e2eac, 0xe325b16c89a8d83e, 0xe7447fddb0b01884, 0x503ee60c4cdffedd,
      0x6b1e0590f47a766b, 0x660766edf8112868, 0xf1ac39ea696c0882, 0x91788f66d1bdd58c,
      0x913d79a2874e74b2, 0xd7e0ab10ec4782e, 0x85749a8f4ca2fc3a, 0x1371f6b00a009444,
      0x4109ba210c538f8b, 0x2dd14505fab6e724, 0xc5f55cb6cf937b4b, 0x13c15a0bf6bef25a,
      0xeca0920d4be2e48c, 0xc89b8f4b2fa15d4e, 0x362980680c19a309, 0x7ce562d42ade4784,
      0x9758e4ac0e142a13]"
  by (simp add: keccak_round_defs)

lemma keccak_round_19:
  "keccak_round
     [0x9f4ed7fcf94cb31, 0x4e90e8c069a415d5, 0x216e43e85d401869, 0xd254c76834c7e6ed,
      0xe2926b00a56e2eac, 0xe325b16c89a8d83e, 0xe7447fddb0b01884, 0x503ee60c4cdffedd,
      0x6b1e0590f47a766b, 0x660766edf8112868, 0xf1ac39ea696c0882, 0x91788f66d1bdd58c,
      0x913d79a2874e74b2, 0xd7e0ab10ec4782e, 0x85749a8f4ca2fc3a, 0x1371f6b00a009444,
      0x4109ba210c538f8b, 0x2dd14505fab6e724, 0xc5f55cb6cf937b4b, 0x13c15a0bf6bef25a,
      0xeca0920d4be2e48c, 0xc89b8f4b2fa15d4e, 0x362980680c19a309, 0x7ce562d42ade4784,
      0x9758e4ac0e142a13]
     0x800a =
     [0xecf29e0a215673ad, 0xfdb5ef6124ec61ef, 0xe2b37fd25fde6b1a, 0x283fa0f571a6bb34,
      0x150a9f550eb7d481, 0x196767368712c8dc, 0x2cf1ce03e84c23fa, 0xc7ea904abb68f018,
      0x81571d0be1346c87, 0xd72b4825c66d471a, 0x9b1d9eb70b7f918e, 0x4ecfd2cc515782a9,
      0x2179f959d5f03e80, 0x85aa8f20692737db, 0xc7eb90c738282ce3, 0x82f8e11d897526f5,
      0x669ee98060ad29e3, 0x7a7d51d79c4a768f, 0x5831328023de737a, 0xa48b8aa8369046d6,
      0x8ab422abcc08aca2, 0x15cdb96ff32bdc50, 0x154d1b268087564d, 0x1c58561230e29e7,
      0x793fec6217993823]"
  by (simp add: keccak_round_defs)

lemma keccak_round_20:
  "keccak_round
     [0xecf29e0a215673ad, 0xfdb5ef6124ec61ef, 0xe2b37fd25fde6b1a, 0x283fa0f571a6bb34,
      0x150a9f550eb7d481, 0x196767368712c8dc, 0x2cf1ce03e84c23fa, 0xc7ea904abb68f018,
      0x81571d0be1346c87, 0xd72b4825c66d471a, 0x9b1d9eb70b7f918e, 0x4ecfd2cc515782a9,
      0x2179f959d5f03e80, 0x85aa8f20692737db, 0xc7eb90c738282ce3, 0x82f8e11d897526f5,
      0x669ee98060ad29e3, 0x7a7d51d79c4a768f, 0x5831328023de737a, 0xa48b8aa8369046d6,
      0x8ab422abcc08aca2, 0x15cdb96ff32bdc50, 0x154d1b268087564d, 0x1c58561230e29e7,
      0x793fec6217993823]
     0x800000008000000a =
     [0x6e5ff9cb4ecdc07f, 0x5099bd81d915a714, 0x53fb22ae3242b90a, 0x6c41c42f283e33ba,
      0x18c98f9c61c195e0, 0x6f7ca9d2cf3c3b47, 0x5676c8d2877cd353, 0xd491ce463235d064,
      0x7df9d35bae83a35d, 0x127d464a0f4562dd, 0x1aa3441b2f6b178d, 0x77cf150d8cad4d6c,
      0xd6deb62304fe81c2, 0xbee40e265b84e11e, 0x501c1d44cc46059d, 0x8632ba71354fa9f8,
      0xf0f2849189953490, 0x2fb04e0bb82a47f3, 0x7d5460181e75b6f4, 0x9c5e2d1b202d762b,
      0x7943178522d14b77, 0x773d1181a536a035, 0xe4cfb3f6aaced8ea, 0xb01bee34471dc695,
      0x928adcc9c1cf7de2]"
  by (simp add: keccak_round_defs)

lemma keccak_round_21:
  "keccak_round
     [0x6e5ff9cb4ecdc07f, 0x5099bd81d915a714, 0x53fb22ae3242b90a, 0x6c41c42f283e33ba,
      0x18c98f9c61c195e0, 0x6f7ca9d2cf3c3b47, 0x5676c8d2877cd353, 0xd491ce463235d064,
      0x7df9d35bae83a35d, 0x127d464a0f4562dd, 0x1aa3441b2f6b178d, 0x77cf150d8cad4d6c,
      0xd6deb62304fe81c2, 0xbee40e265b84e11e, 0x501c1d44cc46059d, 0x8632ba71354fa9f8,
      0xf0f2849189953490, 0x2fb04e0bb82a47f3, 0x7d5460181e75b6f4, 0x9c5e2d1b202d762b,
      0x7943178522d14b77, 0x773d1181a536a035, 0xe4cfb3f6aaced8ea, 0xb01bee34471dc695,
      0x928adcc9c1cf7de2]
     0x8000000080008081 =
     [0x8fa7f116c12ae41b, 0x7a0207743f5e94a, 0xd37de3e13b6e859f, 0xe439f9341349ccf0,
      0xae1685849ad74f7e, 0x8b81655dd1c3059c, 0x4f27b1c5f94bd8da, 0x9844973ca5a5a38f,
      0x7bb92657da076398, 0xbede7d8a8989f688, 0x226c94be5a9685cd, 0x180df567387df689,
      0x60b524e1731dae47, 0xac5508d26dfb4a3f, 0xf5631dba800631b3, 0xde3e8800ef995d50,
      0x456db02f5df068d3, 0x17885465cce1c7d9, 0x46e0e33799ae44a4, 0xf3833b3e82b111e4,
      0x1ac4e627f1416de1, 0x5d34e51d761c4793, 0x96e4b87d377cef1f, 0x40177e7c12eb9978,
      0x9c4c9974c53f1780]"
  by (simp add: keccak_round_defs)

lemma keccak_round_22:
  "keccak_round
     [0x8fa7f116c12ae41b, 0x7a0207743f5e94a, 0xd37de3e13b6e859f, 0xe439f9341349ccf0,
      0xae1685849ad74f7e, 0x8b81655dd1c3059c, 0x4f27b1c5f94bd8da, 0x9844973ca5a5a38f,
      0x7bb92657da076398, 0xbede7d8a8989f688, 0x226c94be5a9685cd, 0x180df567387df689,
      0x60b524e1731dae47, 0xac5508d26dfb4a3f, 0xf5631dba800631b3, 0xde3e8800ef995d50,
      0x456db02f5df068d3, 0x17885465cce1c7d9, 0x46e0e33799ae44a4, 0xf3833b3e82b111e4,
      0x1ac4e627f1416de1, 0x5d34e51d761c4793, 0x96e4b87d377cef1f, 0x40177e7c12eb9978,
      0x9c4c9974c53f1780]
     0x8000000000008080 =
     [0x154d953753a13e20, 0xb094a68b60adf107, 0x13b252f17527962f, 0x9a18c1808dfb992,
      0xab1aba6049eb5b14, 0x9afff30aa51b0e9f, 0xafc089776b44cdc6, 0xdd7b85f2a8de90b3,
      0xc7e1ea41b157b49c, 0x338e63f982728f8a, 0x62825df377abb375, 0x74c48bd4df0eb02f,
      0x1ff5a4cd1a6cfe6e, 0xa00e40de3d836127, 0x9c155d2445cc0411, 0x53e90bf0217be0ae,
      0x7c95b8ef0c760ec7, 0xf14bd749b729439d, 0xa83a5da73d19ba1d, 0x8efa8f44a1a91b64,
      0x646ab6fca3ad4534, 0x85654883ae2af03f, 0xd5402f9690647b2e, 0x346f966b7a1064c2,
      0x2817861e7ca3f9e4]"
  by (simp add: keccak_round_defs)

lemma keccak_round_23:
  "keccak_round
     [0x154d953753a13e20, 0xb094a68b60adf107, 0x13b252f17527962f, 0x9a18c1808dfb992,
      0xab1aba6049eb5b14, 0x9afff30aa51b0e9f, 0xafc089776b44cdc6, 0xdd7b85f2a8de90b3,
      0xc7e1ea41b157b49c, 0x338e63f982728f8a, 0x62825df377abb375, 0x74c48bd4df0eb02f,
      0x1ff5a4cd1a6cfe6e, 0xa00e40de3d836127, 0x9c155d2445cc0411, 0x53e90bf0217be0ae,
      0x7c95b8ef0c760ec7, 0xf14bd749b729439d, 0xa83a5da73d19ba1d, 0x8efa8f44a1a91b64,
      0x646ab6fca3ad4534, 0x85654883ae2af03f, 0xd5402f9690647b2e, 0x346f966b7a1064c2,
      0x2817861e7ca3f9e4]
     0x80000001 =
     [0x2ad12547dc87d47, 0xeb21d5309ba621a, 0xc7fcab4510dc3614, 0xad4effb3e4631a99,
      0xfda427aac1fdd94b, 0x74f811dc8b84d15b, 0x276466ee3cd79e68, 0x8113b0c6c4092ea5,
      0x558b885d66856984, 0xb7669a0bb84843ba, 0x656f5da7b4ae29, 0x4f0ac8331de5e063,
      0x4af7bf98ba3949b2, 0x86ff83a024411768, 0x854ef610545adb18, 0x3c2b690e3f21a3d5,
      0xbfaca85bcf1d64df, 0xf06c5471f457c550, 0x4ca71fe3a170439b, 0x1f8103d7742032c0,
      0x993d574811e20535, 0x653b1f3f457a92b6, 0xf2ff436c85feb540, 0xad750faa8a5b1f7b,
      0xb6e5613cff68c33a]"
  by (simp add: keccak_round_defs)

lemma keccak_round_24:
  "keccak_round
     [0x2ad12547dc87d47, 0xeb21d5309ba621a, 0xc7fcab4510dc3614, 0xad4effb3e4631a99,
      0xfda427aac1fdd94b, 0x74f811dc8b84d15b, 0x276466ee3cd79e68, 0x8113b0c6c4092ea5,
      0x558b885d66856984, 0xb7669a0bb84843ba, 0x656f5da7b4ae29, 0x4f0ac8331de5e063,
      0x4af7bf98ba3949b2, 0x86ff83a024411768, 0x854ef610545adb18, 0x3c2b690e3f21a3d5,
      0xbfaca85bcf1d64df, 0xf06c5471f457c550, 0x4ca71fe3a170439b, 0x1f8103d7742032c0,
      0x993d574811e20535, 0x653b1f3f457a92b6, 0xf2ff436c85feb540, 0xad750faa8a5b1f7b,
      0xb6e5613cff68c33a]
     0x8000000080008008 =
     [0x8cc53291342871a5, 0xef81df9541670057, 0x76960e6fc39be85e, 0xdece7f9b47e1e7ba,
      0x2b0fef20ad862582, 0x4b34d13ac0c743b0, 0xb2a93b12b9d06da8, 0x9ef24f522267725a,
      0x91078a3973f8c1f5, 0xdea49bf00f8989cf, 0x85a6c5b810150997, 0xa35d68dc3eedcba2,
      0xfcf19ec4be9749cd, 0x2542e797cb42fef4, 0xfd46c22ee8f6690d, 0x3da09522fe384134,
      0x8fc35d168762accd, 0xedd6b95f40c20200, 0x5dda37d18921bbdb, 0xcc25647a199b455c,
      0x510d8aa22a0b7352, 0x7bc104347d9a44bc, 0xdcf593de64774895, 0xe29f7f2c82d129f9,
      0xa4eace94c63dd592]"
  by (simp add: keccak_round_defs)

lemma keccak_f_seed:
  "keccak_f
     [0x2d726579616c6572, 0x7265766f63736964, 0x61736e6172742d79, 0x16e6f697463, 0x0, 0x0, 0x0,
      0x0, 0x0, 0x0, 0x0, 0x0, 0x0, 0x0, 0x0, 0x0, 0x8000000000000000, 0x0, 0x0, 0x0, 0x0, 0x0,
      0x0, 0x0, 0x0]
   =
     [0x8cc53291342871a5, 0xef81df9541670057, 0x76960e6fc39be85e, 0xdece7f9b47e1e7ba,
      0x2b0fef20ad862582, 0x4b34d13ac0c743b0, 0xb2a93b12b9d06da8, 0x9ef24f522267725a,
      0x91078a3973f8c1f5, 0xdea49bf00f8989cf, 0x85a6c5b810150997, 0xa35d68dc3eedcba2,
      0xfcf19ec4be9749cd, 0x2542e797cb42fef4, 0xfd46c22ee8f6690d, 0x3da09522fe384134,
      0x8fc35d168762accd, 0xedd6b95f40c20200, 0x5dda37d18921bbdb, 0xcc25647a199b455c,
      0x510d8aa22a0b7352, 0x7bc104347d9a44bc, 0xdcf593de64774895, 0xe29f7f2c82d129f9,
      0xa4eace94c63dd592]"
  unfolding keccak_f_def RC_def foldl_Cons foldl_Nil
    keccak_round_1
    keccak_round_2
    keccak_round_3
    keccak_round_4
    keccak_round_5
    keccak_round_6
    keccak_round_7
    keccak_round_8
    keccak_round_9
    keccak_round_10
    keccak_round_11
    keccak_round_12
    keccak_round_13
    keccak_round_14
    keccak_round_15
    keccak_round_16
    keccak_round_17
    keccak_round_18
    keccak_round_19
    keccak_round_20
    keccak_round_21
    keccak_round_22
    keccak_round_23
    keccak_round_24
  by (rule refl)

lemma upt_17: "[0..<17] = [0, 1, 2, 3, 4, 5, 6, 7, 8, 9, 10, 11, 12, 13, 14, 15, 16]"
  by (simp add: upt_rec [of _ 17])

lemma replicate_numeral: "replicate (numeral k) x = x # replicate (pred_numeral k) x"
  by (simp add: numeral_eq_Suc)

lemma keccak_pad_seed:
  "block_lanes (keccak_pad (bytes_of ''relayer-discovery-transaction'')) =
     [0x2d726579616c6572, 0x7265766f63736964, 0x61736e6172742d79, 0x16e6f697463, 0x0, 0x0, 0x0,
      0x0, 0x0, 0x0, 0x0, 0x0, 0x0, 0x0, 0x0, 0x0, 0x8000000000000000, 0x0, 0x0, 0x0, 0x0, 0x0,
      0x0, 0x0, 0x0]"
  by (simp add: block_lanes_def keccak_pad_def bytes_of_def upt_17 Let_def replicate_numeral)

lemma keccak_pad_seed_length:
  "length (keccak_pad (bytes_of ''relayer-discovery-transaction'')) = 136"
  by (simp add: keccak_pad_def bytes_of_def Let_def)

lemma keccak256_seed:
  "keccak256 (bytes_of ''relayer-discovery-transaction'') = TRANSACTION_PDA_SEED"
proof -
  let ?p = "keccak_pad (bytes_of ''relayer-discovery-transaction'')"
  have blocks: "map (\<lambda>j. take 136 (drop (136 * j) ?p)) [0..<length ?p div 136] = [?p]"
    by (simp add: keccak_pad_seed_length)
  have start: "map (\<lambda>(a, b). a XOR b) (zip (replicate 25 0) (block_lanes ?p)) = block_lanes ?p"
    unfolding keccak_pad_seed by (simp add: replicate_numeral)
  have "foldl absorb (replicate 25 0) [?p] = keccak_f (block_lanes ?p)"
    by (simp only: foldl_Cons foldl_Nil absorb_def start)
  also have "\<dots> =
     [0x8cc53291342871a5, 0xef81df9541670057, 0x76960e6fc39be85e, 0xdece7f9b47e1e7ba,
      0x2b0fef20ad862582, 0x4b34d13ac0c743b0, 0xb2a93b12b9d06da8, 0x9ef24f522267725a,
      0x91078a3973f8c1f5, 0xdea49bf00f8989cf, 0x85a6c5b810150997, 0xa35d68dc3eedcba2,
      0xfcf19ec4be9749cd, 0x2542e797cb42fef4, 0xfd46c22ee8f6690d, 0x3da09522fe384134,
      0x8fc35d168762accd, 0xedd6b95f40c20200, 0x5dda37d18921bbdb, 0xcc25647a199b455c,
      0x510d8aa22a0b7352, 0x7bc104347d9a44bc, 0xdcf593de64774895, 0xe29f7f2c82d129f9,
      0xa4eace94c63dd592]"
    unfolding keccak_pad_seed by (rule keccak_f_seed)
  finally show ?thesis
    unfolding keccak256_def Let_def blocks
    by (simp add: TRANSACTION_PDA_SEED_def enc_le_numeral)
qed

section \<open>The claims about the codec\<close>

text \<open>
  Claim C1. For every valid descriptor \<open>t\<close>, decoding the bytes that \<open>encode\<close> produces
  yields \<open>t\<close> again: \<open>decode (encode t) = t\<close>. The layout is the Borsh one: booleans as one
  byte, sequences as a little-endian 32-bit length followed by the elements, tagged unions
  as a one-byte discriminant, fixed-size byte arrays verbatim. Every value the layout can
  hold (every public key has its 32 bytes, every sequence is shorter than \<open>2^32\<close>) is read
  back from its bytes with no input left, a descriptor without instructions too; \<open>decode\<close>
  returns it when it keeps the invariant of a descriptor, at least one instruction.
\<close>

theorem decode_encode:
  "valid_RelayerTransaction t \<Longrightarrow>
     dec_RelayerTransaction (encode t) = Some (t, []) \<and>
     (instructions t \<noteq> [] \<longrightarrow> decode (encode t) = Inr t)"
  using dec_RelayerTransaction_enc [of t "[]"] by (simp add: decode_def)

theorem decode_encode_witness:
  "valid_RelayerTransaction example_final \<and> instructions example_final \<noteq> [] \<and>
   decode (encode example_final) = Inr example_final \<and>
   encode example_final =
     [1] @ [1, 0, 0, 0] @ replicate 32 7 @
     [4, 0, 0, 0] @ ([3] @ [0xe8, 3, 0, 0, 0, 0, 0, 0]) @ [1] @ [2] @ ([0] @ replicate 32 9 @ [0, 1]) @
     [2, 0, 0, 0] @ ([0] @ [1, 0, 0, 0] @ [9]) @ [1]"
proof -
  have h: "valid_RelayerTransaction example_final"
    by (simp add: example_final_def valid_RelayerTransaction_def valid_RelayerInstruction_def
        valid_len_def valid_Pubkey_def)
  have e: "encode example_final =
     [1] @ [1, 0, 0, 0] @ replicate 32 7 @
     [4, 0, 0, 0] @ ([3] @ [0xe8, 3, 0, 0, 0, 0, 0, 0]) @ [1] @ [2] @ ([0] @ replicate 32 9 @ [0, 1]) @
     [2, 0, 0, 0] @ ([0] @ [1, 0, 0, 0] @ [9]) @ [1]"
    by (simp add: example_final_def encode_def enc_bool_def enc_vec_def enc_u32_def enc_u64_def
        enc_RelayerInstruction_def enc_AccountMeta_def enc_le_numeral)
  have n: "instructions example_final \<noteq> []"
    by (simp add: example_final_def)
  from decode_encode [OF h] n have "decode (encode example_final) = Inr example_final"
    by simp
  with h n e show ?thesis by (intro conjI)
qed

text \<open>
  Claim C7. \<open>decode\<close> returns \<open>DecodeError\<close>, and no descriptor,
  \<^item> on truncated input: on every proper prefix of the encoding of a valid descriptor;
  \<^item> on an unrecognized discriminant: wherever an account is expected and the byte there is
    not 0, 1, 2 or 3, and wherever a data chunk is expected and the byte there is not 0 or 1,
    whatever follows it;
  \<^item> on a length prefix that exceeds the remaining input: for the count of instructions, of
    an instruction's accounts, of an instruction's data chunks, and for the length of a
    \<open>Bytes\<close> chunk.
\<close>

theorem decode_malformed:
  "(\<forall>t n. valid_RelayerTransaction t \<and> n < length (encode t) \<longrightarrow>
      decode (take n (encode t)) = Inl DecodeError) \<and>
   (\<forall>f n pre prog k as m ds tag l rest.
      n < 2 ^ 32 \<and> length pre < n \<and> list_all valid_RelayerInstruction pre \<and> valid_Pubkey prog \<longrightarrow>
      (k < 2 ^ 32 \<and> length as < k \<and> list_all valid_RelayerAccount as \<and> tag \<notin> {0, 1, 2, 3} \<longrightarrow>
         decode (at_instruction f n pre (at_account prog k as (tag # rest))) = Inl DecodeError) \<and>
      (valid_len as \<and> list_all valid_RelayerAccount as \<and>
       m < 2 ^ 32 \<and> length ds < m \<and> list_all valid_RelayerData ds \<and> tag \<notin> {0, 1} \<longrightarrow>
         decode (at_instruction f n pre (at_data prog as m ds (tag # rest))) = Inl DecodeError) \<and>
      (length rest < n \<longrightarrow> decode (at_instruction f n [] rest) = Inl DecodeError) \<and>
      (k < 2 ^ 32 \<and> length rest < k \<longrightarrow>
         decode (at_instruction f n pre (at_account prog k [] rest)) = Inl DecodeError) \<and>
      (valid_len as \<and> list_all valid_RelayerAccount as \<and> m < 2 ^ 32 \<and> length rest < m \<longrightarrow>
         decode (at_instruction f n pre (at_data prog as m [] rest)) = Inl DecodeError) \<and>
      (valid_len as \<and> list_all valid_RelayerAccount as \<and>
       m < 2 ^ 32 \<and> length ds < m \<and> list_all valid_RelayerData ds \<and>
       l < 2 ^ 32 \<and> length rest < l \<longrightarrow>
         decode (at_instruction f n pre (at_data prog as m ds (0 # enc_u32 l @ rest)))
           = Inl DecodeError))"
proof (intro conjI allI impI; (elim conjE)?)
  fix t n assume "valid_RelayerTransaction t" "n < length (encode t)"
  then show "decode (take n (encode t)) = Inl DecodeError" by (rule decode_truncated)
next
  fix f n pre prog k as rest and tag :: byte
  assume "n < 2 ^ 32" "length pre < n" "list_all valid_RelayerInstruction pre" "valid_Pubkey prog"
    "k < 2 ^ 32" "length as < k" "list_all valid_RelayerAccount as" "tag \<notin> {0, 1, 2, 3}"
  then show "decode (at_instruction f n pre (at_account prog k as (tag # rest))) = Inl DecodeError"
    by (intro decode_at_instruction dec_RelayerInstruction_at_account dec_RelayerAccount_tag)
next
  fix f n pre prog as m ds rest and tag :: byte
  assume "n < 2 ^ 32" "length pre < n" "list_all valid_RelayerInstruction pre" "valid_Pubkey prog"
    "valid_len as" "list_all valid_RelayerAccount as" "m < 2 ^ 32" "length ds < m"
    "list_all valid_RelayerData ds" "tag \<notin> {0, 1}"
  then show "decode (at_instruction f n pre (at_data prog as m ds (tag # rest))) = Inl DecodeError"
    by (intro decode_at_instruction dec_RelayerInstruction_at_data dec_RelayerData_tag)
next
  fix f n and rest :: "byte list"
  assume "n < 2 ^ 32" "length rest < n"
  then show "decode (at_instruction f n [] rest) = Inl DecodeError"
    by (simp add: at_instruction_def dec_RelayerInstruction_count)
next
  fix f n pre prog k and rest :: "byte list"
  assume "n < 2 ^ 32" "length pre < n" "list_all valid_RelayerInstruction pre" "valid_Pubkey prog"
    "k < 2 ^ 32" "length rest < k"
  then show "decode (at_instruction f n pre (at_account prog k [] rest)) = Inl DecodeError"
    unfolding at_account_Nil by (intro decode_at_instruction dec_RelayerAccount_count)
next
  fix f n pre prog as m and rest :: "byte list"
  assume "n < 2 ^ 32" "length pre < n" "list_all valid_RelayerInstruction pre" "valid_Pubkey prog"
    "valid_len as" "list_all valid_RelayerAccount as" "m < 2 ^ 32" "length rest < m"
  then show "decode (at_instruction f n pre (at_data prog as m [] rest)) = Inl DecodeError"
    unfolding at_data_Nil by (intro decode_at_instruction dec_RelayerData_count)
next
  fix f n pre prog as m ds l and rest :: "byte list"
  assume "n < 2 ^ 32" "length pre < n" "list_all valid_RelayerInstruction pre" "valid_Pubkey prog"
    "valid_len as" "list_all valid_RelayerAccount as" "m < 2 ^ 32" "length ds < m"
    "list_all valid_RelayerData ds" "l < 2 ^ 32" "length rest < l"
  then show "decode (at_instruction f n pre (at_data prog as m ds (0 # enc_u32 l @ rest)))
      = Inl DecodeError"
    by (intro decode_at_instruction dec_RelayerInstruction_at_data dec_Bytes_count)
qed

theorem decode_malformed_witness:
  "valid_RelayerTransaction example_final \<and> 5 < length (encode example_final) \<and>
   decode (take 5 (encode example_final)) = Inl DecodeError \<and>
   valid_Pubkey (replicate 32 7) \<and>
   decode (at_instruction True 1 [] (at_account (replicate 32 7) 1 [] [4])) = Inl DecodeError \<and>
   decode (at_instruction True 1 [] (at_data (replicate 32 7) [IncomingMessage] 1 [] [2]))
     = Inl DecodeError \<and>
   decode (at_instruction True 1 [] []) = Inl DecodeError \<and>
   decode (at_instruction True 1 [] (at_account (replicate 32 7) 5 [] [1])) = Inl DecodeError \<and>
   decode (at_instruction True 1 [] (at_data (replicate 32 7) [IncomingMessage] 3 [] [1, 1]))
     = Inl DecodeError \<and>
   decode (at_instruction True 1 [] (at_data (replicate 32 7) [IncomingMessage] 1 []
     (0 # enc_u32 2 @ [0]))) = Inl DecodeError"
proof -
  have v: "valid_RelayerTransaction example_final"
    by (simp add: example_final_def valid_RelayerTransaction_def valid_RelayerInstruction_def
        valid_len_def valid_Pubkey_def)
  have l: "5 < length (encode example_final)"
    by (simp add: example_final_def encode_def enc_bool_def enc_vec_def enc_u32_def length_enc_le
        enc_RelayerInstruction_def)
  have p: "valid_Pubkey (replicate 32 7)"
    by (simp add: valid_Pubkey_def)
  have c: "(1::nat) < 2 ^ 32 \<and> length ([] :: RelayerInstruction list) < 1 \<and>
      list_all valid_RelayerInstruction [] \<and> valid_Pubkey (replicate 32 7)"
    using p by simp
  note T = decode_malformed [THEN conjunct2, rule_format, OF c]
  have t1: "decode (take 5 (encode example_final)) = Inl DecodeError"
    using decode_malformed [THEN conjunct1, rule_format, of example_final 5] v l by simp
  have t2: "decode (at_instruction True 1 [] (at_account (replicate 32 7) 1 [] [4]))
      = Inl DecodeError"
    using T [where k = 1 and as = "[]" and tag = 4 and f = True and rest = "[]"] by simp
  have t3: "decode (at_instruction True 1 [] (at_data (replicate 32 7) [IncomingMessage] 1 [] [2]))
      = Inl DecodeError"
    using T [where as = "[IncomingMessage]" and m = 1 and ds = "[]" and tag = 2 and f = True
        and rest = "[]"]
    by (simp add: valid_len_def)
  have t4: "decode (at_instruction True 1 [] []) = Inl DecodeError"
    using T [where f = True and rest = "[]"] by simp
  have t5: "decode (at_instruction True 1 [] (at_account (replicate 32 7) 5 [] [1]))
      = Inl DecodeError"
    using T [where k = 5 and f = True and rest = "[1]"] by simp
  have t6: "decode (at_instruction True 1 [] (at_data (replicate 32 7) [IncomingMessage] 3 [] [1, 1]))
      = Inl DecodeError"
    using T [where as = "[IncomingMessage]" and m = 3 and f = True and rest = "[1, 1]"]
    by (simp add: valid_len_def)
  have t7: "decode (at_instruction True 1 [] (at_data (replicate 32 7) [IncomingMessage] 1 []
      (0 # enc_u32 2 @ [0]))) = Inl DecodeError"
    using T [where as = "[IncomingMessage]" and m = 1 and ds = "[]" and l = 2 and f = True
        and rest = "[0]"]
    by (simp add: valid_len_def)
  from v l t1 p t2 t3 t4 t5 t6 t7 show ?thesis by (intro conjI)
qed

text \<open>
  Claim C8. Every descriptor that \<open>decode\<close> accepts contains at least one instruction:
  decoding never yields a descriptor with an empty instruction sequence, and an input that
  announces no instruction is refused, whatever follows. So every descriptor the resolution
  loop decodes from return data, and the descriptor the relayer's discovery ends with,
  contain at least one instruction.
\<close>

theorem decode_at_least_one_instruction:
  "(decode bs = Inr t \<longrightarrow> instructions t \<noteq> []) \<and>
   decode (enc_bool f @ enc_u32 0 @ rest) = Inl DecodeError \<and>
   (next_transaction simulate c u = Inr u' \<longrightarrow> instructions u' \<noteq> []) \<and>
   (relayer_discover getAccountInfo simulate c address = Some (Inr (n, final))
      \<longrightarrow> instructions final \<noteq> [])"
proof (intro conjI impI)
  assume "decode bs = Inr t"
  then show "instructions t \<noteq> []" by (rule decode_not_empty)
next
  have "dec_vec dec_RelayerInstruction (enc_u32 0 @ rest) = Some ([], rest)"
    by (simp add: dec_vec_def dec_u32_enc)
  then show "decode (enc_bool f @ enc_u32 0 @ rest) = Inl DecodeError"
    by (simp add: decode_def dec_RelayerTransaction_def dec_bool_enc)
next
  assume "next_transaction simulate c u = Inr u'"
  then show "instructions u' \<noteq> []" by (rule next_transaction_not_empty)
next
  assume "relayer_discover getAccountInfo simulate c address = Some (Inr (n, final))"
  then show "instructions final \<noteq> []" by (rule relayer_discover_not_empty)
qed

theorem decode_at_least_one_instruction_witness:
  "decode (encode example_final) = Inr example_final \<and>
   instructions example_final \<noteq> [] \<and>
   decode [1, 0, 0, 0, 0] = Inl DecodeError \<and>
   next_transaction (\<lambda>ixs. Some (encode example_final)) example_context example_first
     = Inr example_final \<and>
   relayer_discover (\<lambda>a. Some (encode example_final)) (\<lambda>ixs. None) example_context
     (replicate 32 0) = Some (Inr (1, example_final))"
proof -
  let ?g = "\<lambda>a :: Pubkey. Some (encode example_final)"
  let ?s = "\<lambda>ixs :: Instruction list. Some (encode example_final)"
  let ?none = "\<lambda>ixs :: Instruction list. None :: byte list option"
  have d: "decode (encode example_final) = Inr example_final"
    by (simp add: decode_encode_valid valid_example_final not_empty_example_final)
  have nx: "next_transaction ?s example_context example_first = Inr example_final"
    by (simp add: next_transaction_def d)
  have fin: "is_final example_final" by (simp add: example_final_def)
  have r: "relayer_discover ?g ?none example_context (replicate 32 0)
      = Some (Inr (1, example_final))"
    by (simp add: relayer_discover_def d discover.simps fin)
  note T = decode_at_least_one_instruction
    [where bs = "encode example_final" and t = example_final and f = True and rest = "[]"]
  from T d have n: "instructions example_final \<noteq> []" by simp
  from T have z: "decode [1, 0, 0, 0, 0] = Inl DecodeError"
    by (simp add: enc_bool_def enc_u32_def enc_le_numeral)
  from d n z nx r show ?thesis by (intro conjI)
qed

section \<open>The claims about the conversion and the relayer\<close>

text \<open>
  Claim C4, as stated: materialization preserves order (the \<open>k\<close>-th account of the regular
  instruction is the conversion of the \<open>k\<close>-th entry of \<open>accounts\<close>, and the data is the
  ordered concatenation of the bytes of the chunks), and reordering the chunks changes the
  result. The last part does not hold for every instruction: the chunks \<open>Bytes [1]\<close>,
  \<open>Bytes [1, 1]\<close> give the data \<open>[1, 1, 1]\<close> in either order.
\<close>

theorem convert_instruction_reorder_same:
  "[Bytes [1], Bytes [1, 1]] \<noteq> [Bytes [1, 1], Bytes [1]] \<and>
   data_bytes (convert_instruction example_context
       \<lparr>program = replicate 32 7, accounts = [], data = [Bytes [1], Bytes [1, 1]]\<rparr>) =
   data_bytes (convert_instruction example_context
       \<lparr>program = replicate 32 7, accounts = [], data = [Bytes [1, 1], Bytes [1]]\<rparr>)"
  by (simp add: convert_instruction_def)

text \<open>
  Claim C4, amended: for every relayer instruction, the regular instruction has as many
  accounts as the relayer instruction has entries, its \<open>k\<close>-th account is the conversion of
  the \<open>k\<close>-th entry, and its data is the concatenation, in order, of the bytes of the
  chunks (\<open>Bytes\<close> gives its bytes, \<open>Message\<close> the serialised message), so the bytes of a
  chunk stand right after the bytes of the chunks before it; exchanging two neighbouring
  chunks changes the data exactly when their bytes, concatenated in the two orders, differ.
\<close>

theorem convert_instruction_order:
  "length (accounts_meta (convert_instruction c i)) = length (accounts i) \<and>
   (\<forall>k < length (accounts i).
      accounts_meta (convert_instruction c i) ! k = convert_account c (accounts i ! k)) \<and>
   data_bytes (convert_instruction c i) = concat (map (convert_data c) (data i)) \<and>
   (\<forall>bs. convert_data c (Bytes bs) = bs) \<and> convert_data c Message = message c \<and>
   (\<forall>pre d post. data i = pre @ d # post \<longrightarrow>
      take (length (convert_data c d))
        (drop (length (concat (map (convert_data c) pre))) (data_bytes (convert_instruction c i)))
        = convert_data c d) \<and>
   (\<forall>pre d e post. data i = pre @ d # e # post \<longrightarrow>
      (data_bytes (convert_instruction c (i\<lparr>data := pre @ e # d # post\<rparr>))
         \<noteq> data_bytes (convert_instruction c i))
      = (convert_data c d @ convert_data c e \<noteq> convert_data c e @ convert_data c d))"
  by (auto simp: convert_instruction_def concat_swap_iff)

theorem convert_instruction_order_witness:
  "accounts_meta (convert_instruction example_context (hd (instructions example_final))) ! 1
     = incoming_message_pda example_context \<and>
   take 1 (drop 1 (data_bytes (convert_instruction example_context
     (hd (instructions example_final))))) = [0x4d] \<and>
   data_bytes (convert_instruction example_context (hd (instructions example_final)))
     = [9, 0x4d] \<and>
   data_bytes (convert_instruction example_context
     ((hd (instructions example_final))\<lparr>data := [Message, Bytes [9]]\<rparr>)) = [0x4d, 9] \<and>
   data_bytes (convert_instruction example_context
     ((hd (instructions example_final))\<lparr>data := [Message, Bytes [9]]\<rparr>))
     \<noteq> data_bytes (convert_instruction example_context (hd (instructions example_final)))"
proof -
  let ?i = "hd (instructions example_final)"
  have acc: "accounts ?i = [Payer 1000, IncomingMessage, MessagePayload,
      Account \<lparr>pubkey = replicate 32 9, is_signer = False, is_writable = True\<rparr>]"
    and dat: "data ?i = [Bytes [9], Message]"
    by (simp_all add: example_final_def)
  note T = convert_instruction_order [of example_context ?i]
  have a: "accounts_meta (convert_instruction example_context ?i) ! 1
      = incoming_message_pda example_context"
    using T [THEN conjunct2, THEN conjunct1, rule_format, of 1] by (simp add: acc)
  have b: "take 1 (drop 1 (data_bytes (convert_instruction example_context ?i))) = [0x4d]"
    using T [THEN conjunct2, THEN conjunct2, THEN conjunct2, THEN conjunct2, THEN conjunct2,
        THEN conjunct1, rule_format, of "[Bytes [9]]" Message "[]"]
    by (simp add: dat example_context_def)
  have c: "data_bytes (convert_instruction example_context ?i) = [9, 0x4d]"
    using T [THEN conjunct2, THEN conjunct2, THEN conjunct1]
    by (simp add: dat example_context_def)
  have d: "data_bytes (convert_instruction example_context (?i\<lparr>data := [Message, Bytes [9]]\<rparr>))
      = [0x4d, 9]"
    by (simp add: convert_instruction_def example_context_def)
  have e: "data_bytes (convert_instruction example_context (?i\<lparr>data := [Message, Bytes [9]]\<rparr>))
      \<noteq> data_bytes (convert_instruction example_context ?i)"
    using T [THEN conjunct2, THEN conjunct2, THEN conjunct2, THEN conjunct2, THEN conjunct2,
        THEN conjunct2, rule_format, of "[]" "Bytes [9]" Message "[]"]
    by (simp add: dat example_context_def)
  from a b c d e show ?thesis by (intro conjI)
qed

text \<open>
  Claim C6. Resolving \<open>Payer(amount)\<close> returns the payer of the context as a signer and
  writable, and adds \<open>amount\<close> to the accumulator of the attempt; a payer entry between other
  entries adds exactly its amount; and the funding requirement of a descriptor is the sum
  of the amounts of all payer entries of all its instructions, as for the three payer
  entries of the two instructions below.
\<close>

theorem payer_accumulates:
  "resolve_account c (Payer amount) acc =
     (\<lparr>pubkey = payer c, is_signer = True, is_writable = True\<rparr>, acc + unat amount) \<and>
   snd (resolve_accounts c (as @ Payer amount # bs) acc) =
     snd (resolve_accounts c as acc) + unat amount + snd (resolve_accounts c bs 0) \<and>
   funding_requirement c t =
     sum_list (map requested_lamports (concat (map accounts (instructions t)))) \<and>
   funding_requirement c
     \<lparr>is_final = True,
      instructions = [\<lparr>program = p, accounts = [Payer x, IncomingMessage, Payer y], data = d\<rparr>,
                      \<lparr>program = q, accounts = [Payer z], data = e\<rparr>]\<rparr>
     = unat x + unat y + unat z"
  by (simp add: resolve_account_def resolve_accounts_eq funding_requirement_def materialize_all_eq)

text \<open>
  Claim C2, as stated: a chain of \<open>N\<close> descriptors that are not final followed by a final
  one resolves in \<open>N + 1\<close> rounds, and a chain that is never final fails with
  \<open>MaxRoundsExceeded\<close> once a configured maximum is exceeded. The second part does not
  hold: the loop of the document has no maximum. Against a program whose simulation always
  returns the same descriptor that is not final, the loop does not return.
\<close>

theorem discover_never_final:
  "\<not> is_final example_first \<and>
   next_transaction (\<lambda>ixs. Some (encode example_first)) example_context example_first
     = Inr example_first \<and>
   discover (\<lambda>ixs. Some (encode example_first)) example_context 1 example_first = None"
proof -
  have nf: "\<not> is_final example_first" by (simp add: example_first_def)
  have "discover (\<lambda>ixs. Some (encode example_first)) example_context 1 ((\<lambda>k. example_first) 0)
      = None"
    by (rule discover_diverges) (simp add: nf next_example_first)
  with nf next_example_first show ?thesis by simp
qed

text \<open>
  Claim C2, amended: for every chain of \<open>N\<close> descriptors that are not final, each giving the
  next one when simulated, followed by a final one, the loop returns the final descriptor
  after decoding \<open>N + 1\<close> descriptors (the first one read from the account, \<open>N\<close> from
  simulations); for every chain in which no descriptor is final the loop does not
  terminate; and the loop never fails with \<open>MaxRoundsExceeded\<close>.
\<close>

theorem discover_rounds:
  "(\<forall>ns f. (\<forall>k < length ns.
               \<not> is_final (ns ! k) \<and>
               next_transaction simulate c (ns ! k) = Inr ((ns @ [f]) ! Suc k)) \<and>
            is_final f \<longrightarrow>
      discover simulate c 1 (hd (ns @ [f])) = Some (Inr (length ns + 1, f))) \<and>
   (\<forall>d. (\<forall>k. \<not> is_final (d k) \<and> next_transaction simulate c (d k) = Inr (d (Suc k))) \<longrightarrow>
      discover simulate c 1 (d 0) = None) \<and>
   (\<forall>r t. discover simulate c r t \<noteq> Some (Inl MaxRoundsExceeded))"
proof (intro conjI allI impI)
  fix ns f
  assume a: "(\<forall>k < length ns.
               \<not> is_final (ns ! k) \<and>
               next_transaction simulate c (ns ! k) = Inr ((ns @ [f]) ! Suc k)) \<and> is_final f"
  have "\<forall>k. Suc k < length (ns @ [f]) \<longrightarrow>
           \<not> is_final ((ns @ [f]) ! k) \<and>
           next_transaction simulate c ((ns @ [f]) ! k) = Inr ((ns @ [f]) ! Suc k)"
    using a by (auto simp: nth_append)
  moreover have "ns @ [f] \<noteq> []" by simp
  moreover have "is_final (last (ns @ [f]))" using a by simp
  ultimately have "discover simulate c 1 (hd (ns @ [f]))
      = Some (Inr (1 + (length (ns @ [f]) - 1), last (ns @ [f])))"
    by (intro discover_chain)
  then show "discover simulate c 1 (hd (ns @ [f])) = Some (Inr (length ns + 1, f))" by simp
next
  fix d
  assume "\<forall>k. \<not> is_final (d k) \<and> next_transaction simulate c (d k) = Inr (d (Suc k))"
  then show "discover simulate c 1 (d 0) = None" by (intro discover_diverges) simp
next
  fix r t
  show "discover simulate c r t \<noteq> Some (Inl MaxRoundsExceeded)"
    by (rule discover_not_MaxRoundsExceeded)
qed

theorem discover_rounds_witness:
  "discover (\<lambda>ixs. Some (encode example_final)) example_context 1 example_first
     = Some (Inr (2, example_final)) \<and>
   discover (\<lambda>ixs. Some (encode example_first)) example_context 1 example_first = None"
proof -
  let ?s = "\<lambda>ixs :: Instruction list. Some (encode example_final)"
  let ?s' = "\<lambda>ixs :: Instruction list. Some (encode example_first)"
  have nf: "\<not> is_final example_first" by (simp add: example_first_def)
  have fin: "is_final example_final" by (simp add: example_final_def)
  have nx: "next_transaction ?s example_context example_first = Inr example_final"
    by (simp add: next_transaction_def decode_encode_valid valid_example_final
        not_empty_example_final)
  have nx': "next_transaction ?s' example_context example_first = Inr example_first"
    by (simp add: next_transaction_def decode_encode_valid valid_example_first
        not_empty_example_first)
  have a: "discover ?s example_context 1 example_first = Some (Inr (2, example_final))"
    using discover_rounds [of ?s example_context, THEN conjunct1, rule_format,
        of "[example_first]" example_final] nf fin nx
    by simp
  have b: "discover ?s' example_context 1 example_first = None"
    using discover_rounds [of ?s' example_context, THEN conjunct2, THEN conjunct1, rule_format,
        of "\<lambda>k. example_first"] nf nx'
    by simp
  from a b show ?thesis by (rule conjI)
qed

text \<open>
  Claim C3, as stated: if the sum of the requested payer amounts exceeds the gas budget the
  attempt fails with \<open>FundingMismatch\<close> and nothing is transferred; otherwise exactly the
  shortfall is transferred before execution, so that after a successful execution the
  payer's balance has decreased by exactly the sum requested. It does not hold at two
  points. What a successful execution takes from the payer is the destination program's
  doing: with 1000 lamports requested, a payer holding 300 is funded with 700, and a
  transaction that succeeds and takes nothing from the payer leaves it with 1000: no
  decrease by 1000. And the document funds the payer only if the gas covers the amount
  requested alongside what the execution needs: with a gas of 1000 and an execution that
  needs 5, the request of 1000 does not exceed the gas, the document's condition does not
  hold, and nothing is transferred.
\<close>

theorem fund_and_execute_not_exact:
  "requested example_final = 1000 \<and>
   fund_and_execute (\<lambda>ixs b. Some b) example_context 2000 5 300 example_final
     = (Inr (), 1000) \<and>
   requested example_final \<le> 1000 \<and>
   \<not> gas_covers 1000 5 (requested example_final) \<and>
   fund_and_execute (\<lambda>ixs b. Some b) example_context 1000 5 0 example_final
     = (Inl FundingMismatch, 0)"
  by (simp add: requested_example_final fund_and_execute_def gas_covers_def shortfall_def
      funding_refused_def Let_def)

text \<open>
  Claim C3, amended: for every final descriptor whose payer amounts sum to the amount
  requested: if the amount requested exceeds the gas, and more generally if the gas does
  not cover it alongside what the execution needs, the attempt fails with
  \<open>FundingMismatch\<close> and no transfer to the payer occurs (its balance is unchanged);
  otherwise exactly the shortfall, the amount requested minus the payer's balance, is
  transferred to the payer before execution, so that the transaction executes with the
  payer holding exactly the amount requested; and after a successful execution that takes
  the amount requested from the payer, the payer's balance has decreased by exactly that
  amount, no more, no less: nothing is left in it, whatever it held before the transfer.
\<close>

theorem fund_and_execute_exact:
  "requested t = funding_requirement c t \<and>
   (gas < requested t \<longrightarrow>
      fund_and_execute execute c gas execution_cost balance t = (Inl FundingMismatch, balance)) \<and>
   (\<not> gas_covers gas execution_cost (requested t) \<longrightarrow>
      fund_and_execute execute c gas execution_cost balance t = (Inl FundingMismatch, balance)) \<and>
   (gas_covers gas execution_cost (requested t) \<longrightarrow>
      shortfall (requested t) balance = int (requested t) - int balance \<and>
      int balance + shortfall (requested t) balance = int (requested t) \<and>
      fund_and_execute execute c gas execution_cost balance t =
        (case execute (convert_transaction c t) (requested t) of
           None \<Rightarrow> (Inl ExecutionFailure, requested t)
         | Some after \<Rightarrow> (Inr (), after)) \<and>
      ((\<forall>b. requested t \<le> b \<longrightarrow>
          execute (convert_transaction c t) b = Some (b - requested t)) \<longrightarrow>
       fund_and_execute execute c gas execution_cost balance t = (Inr (), 0)))"
  by (simp add: requested_funding_requirement fund_and_execute_def gas_covers_def shortfall_def
      funding_refused_def execution_failed_def Let_def split: option.splits)

theorem fund_and_execute_exact_witness:
  "requested example_final = 1000 \<and>
   \<not> gas_covers 1004 5 (requested example_final) \<and>
   fund_and_execute (\<lambda>ixs b. Some (b - 1000)) example_context 1004 5 300 example_final
     = (Inl FundingMismatch, 300) \<and>
   fund_and_execute (\<lambda>ixs b. Some (b - 1000)) example_context 999 0 300 example_final
     = (Inl FundingMismatch, 300) \<and>
   gas_covers 2000 5 (requested example_final) \<and>
   shortfall (requested example_final) 300 = 700 \<and>
   fund_and_execute (\<lambda>ixs b. Some (b - 1000)) example_context 2000 5 300 example_final
     = (Inr (), 0) \<and>
   fund_and_execute (\<lambda>ixs b. Some (b - 1000)) example_context 2000 5 4000 example_final
     = (Inr (), 0)"
proof -
  note r = requested_example_final
  let ?e = "\<lambda>(ixs :: Instruction list) (b :: nat). Some (b - 1000)"
  have n: "\<not> gas_covers 1004 5 (requested example_final)"
    and y: "gas_covers 2000 5 (requested example_final)"
    by (simp_all add: r gas_covers_def)
  have takes: "\<forall>b. requested example_final \<le> b \<longrightarrow>
      ?e (convert_transaction example_context example_final) b
        = Some (b - requested example_final)"
    by (simp add: r)
  have a: "fund_and_execute ?e example_context 1004 5 300 example_final
      = (Inl FundingMismatch, 300)"
    using fund_and_execute_exact [of example_final example_context 1004 ?e 5 300] n
    by simp
  have a': "fund_and_execute ?e example_context 999 0 300 example_final
      = (Inl FundingMismatch, 300)"
    using fund_and_execute_exact [of example_final example_context 999 ?e 0 300]
    by (simp add: r)
  have s: "shortfall (requested example_final) 300 = 700"
    using fund_and_execute_exact [of example_final example_context 2000 ?e 5 300] y
    by (simp add: r)
  have b: "fund_and_execute ?e example_context 2000 5 300 example_final = (Inr (), 0)"
    using fund_and_execute_exact [of example_final example_context 2000 ?e 5 300] y takes
    by blast
  have b': "fund_and_execute ?e example_context 2000 5 4000 example_final = (Inr (), 0)"
    using fund_and_execute_exact [of example_final example_context 2000 ?e 5 4000] y takes
    by blast
  from r n a a' y s b b' show ?thesis by (intro conjI)
qed

section \<open>The claim about the address of the descriptor\<close>

text \<open>
  Claim C5. For every program id, the \<open>transaction_pda\<close> is what \<open>find_program_address\<close>
  derives from the program id and one seed, the constant \<open>TRANSACTION_PDA_SEED\<close>: no other
  seed component is passed. The constant is the 32 bytes
  \<open>a57128349132c58c5700674195df81ef5ee89bc36f0e9676bae7e1479b7fcede\<close>, and these are
  \<open>keccak256('relayer-discovery-transaction')\<close>. The derivation is a function of the SDK's
  derivation and of the program id alone: the same program id gives the same address.
\<close>

theorem transaction_pda_single_seed:
  "transaction_pda find_program_address crate_id
     = find_program_address [TRANSACTION_PDA_SEED] crate_id \<and>
   TRANSACTION_PDA_SEED = keccak256 (bytes_of ''relayer-discovery-transaction'') \<and>
   TRANSACTION_PDA_SEED =
     [0xa5, 0x71, 0x28, 0x34, 0x91, 0x32, 0xc5, 0x8c, 0x57, 0x00, 0x67, 0x41, 0x95, 0xdf, 0x81,
      0xef, 0x5e, 0xe8, 0x9b, 0xc3, 0x6f, 0x0e, 0x96, 0x76, 0xba, 0xe7, 0xe1, 0x47, 0x9b, 0x7f,
      0xce, 0xde] \<and>
   length TRANSACTION_PDA_SEED = 32 \<and>
   (\<forall>other_id. other_id = crate_id \<longrightarrow>
      transaction_pda find_program_address other_id
        = transaction_pda find_program_address crate_id)"
proof (intro conjI)
  show "transaction_pda find_program_address crate_id
      = find_program_address [TRANSACTION_PDA_SEED] crate_id"
    by (simp add: transaction_pda_def)
  show "TRANSACTION_PDA_SEED = keccak256 (bytes_of ''relayer-discovery-transaction'')"
    by (simp only: keccak256_seed)
  show "TRANSACTION_PDA_SEED =
     [0xa5, 0x71, 0x28, 0x34, 0x91, 0x32, 0xc5, 0x8c, 0x57, 0x00, 0x67, 0x41, 0x95, 0xdf, 0x81,
      0xef, 0x5e, 0xe8, 0x9b, 0xc3, 0x6f, 0x0e, 0x96, 0x76, 0xba, 0xe7, 0xe1, 0x47, 0x9b, 0x7f,
      0xce, 0xde]"
    by (simp add: TRANSACTION_PDA_SEED_def)
  show "length TRANSACTION_PDA_SEED = 32"
    by (simp add: TRANSACTION_PDA_SEED_def)
  show "\<forall>other_id. other_id = crate_id \<longrightarrow>
      transaction_pda find_program_address other_id
        = transaction_pda find_program_address crate_id"
    by simp
qed

theorem transaction_pda_single_seed_witness:
  "transaction_pda (\<lambda>seeds pid. (concat seeds @ pid, 255)) (replicate 32 7)
     = (keccak256 (bytes_of ''relayer-discovery-transaction'') @ replicate 32 7, 255)"
proof -
  note T = transaction_pda_single_seed
    [of "\<lambda>seeds pid. (concat seeds @ pid, 255)" "replicate 32 7"]
  from T have "transaction_pda (\<lambda>seeds pid. (concat seeds @ pid, 255)) (replicate 32 7)
      = (TRANSACTION_PDA_SEED @ replicate 32 7, 255)"
    by simp
  moreover from T
  have "TRANSACTION_PDA_SEED = keccak256 (bytes_of ''relayer-discovery-transaction'')"
    by (rule conjunct2 [THEN conjunct1])
  ultimately show ?thesis by simp
qed

section \<open>The claims about the generated bindings\<close>

text \<open>
  Claim C9. For every log string, \<open>AxelarSolanaGatewayEventsCoder.decode\<close> throws the error
  "AxelarSolanaGateway program does not have events": it returns no event and no \<open>null\<close>.
\<close>

theorem events_decode_throws:
  "(AxelarSolanaGatewayEventsCoder_decode log :: js_error + 'event option) =
     Inl (Error ''AxelarSolanaGateway program does not have events'') \<and>
   (\<nexists>r :: 'event option. AxelarSolanaGatewayEventsCoder_decode log = Inr r)"
  by (simp add: AxelarSolanaGatewayEventsCoder_decode_def)

text \<open>
  Claim C10. When \<open>params\<close> is absent, or \<open>params.programId\<close> is, the program returned by
  \<open>axelarSolanaGatewayProgram\<close> is constructed with \<open>AXELAR_SOLANA_GATEWAY_PROGRAM_ID\<close>, the
  public key \<open>gtwLjHAsfKAR6GWB4hzTUAA1w4SDdFMKamtGA5ttMEe\<close>; when \<open>params.programId\<close> is
  supplied, with that one.
\<close>

theorem program_id_default:
  "AXELAR_SOLANA_GATEWAY_PROGRAM_ID = PublicKey ''gtwLjHAsfKAR6GWB4hzTUAA1w4SDdFMKamtGA5ttMEe'' \<and>
   ((params = None \<or> (\<exists>p. params = Some p \<and> programId p = None)) \<longrightarrow>
      Program_programId (axelarSolanaGatewayProgram IDL coder params) =
        AXELAR_SOLANA_GATEWAY_PROGRAM_ID) \<and>
   (\<forall>p k. params = Some p \<and> programId p = Some k \<longrightarrow>
      Program_programId (axelarSolanaGatewayProgram IDL coder params) = k)"
  by (auto simp: axelarSolanaGatewayProgram_def AXELAR_SOLANA_GATEWAY_PROGRAM_ID_def)

theorem program_id_default_witness:
  "Program_programId (axelarSolanaGatewayProgram () (\<lambda>_. ()) (None :: unit GetProgramParams option))
     = PublicKey ''gtwLjHAsfKAR6GWB4hzTUAA1w4SDdFMKamtGA5ttMEe'' \<and>
   Program_programId (axelarSolanaGatewayProgram () (\<lambda>_. ())
       (Some \<lparr>programId = None, provider = Some ()\<rparr>))
     = PublicKey ''gtwLjHAsfKAR6GWB4hzTUAA1w4SDdFMKamtGA5ttMEe'' \<and>
   Program_programId (axelarSolanaGatewayProgram () (\<lambda>_. ())
       (Some \<lparr>programId = Some (PublicKey ''11111111111111111111111111111111''),
              provider = (None :: unit option)\<rparr>))
     = PublicKey ''11111111111111111111111111111111''"
proof -
  have a: "Program_programId (axelarSolanaGatewayProgram () (\<lambda>_. ()) (None :: unit GetProgramParams option))
     = PublicKey ''gtwLjHAsfKAR6GWB4hzTUAA1w4SDdFMKamtGA5ttMEe''"
    using program_id_default [of "None :: unit GetProgramParams option" "()" "\<lambda>_. ()"] by simp
  have b: "Program_programId (axelarSolanaGatewayProgram () (\<lambda>_. ())
       (Some \<lparr>programId = None, provider = Some ()\<rparr>))
     = PublicKey ''gtwLjHAsfKAR6GWB4hzTUAA1w4SDdFMKamtGA5ttMEe''"
    using program_id_default [of "Some \<lparr>programId = None, provider = Some ()\<rparr>" "()" "\<lambda>_. ()"]
    by simp
  have c: "Program_programId (axelarSolanaGatewayProgram () (\<lambda>_. ())
       (Some \<lparr>programId = Some (PublicKey ''11111111111111111111111111111111''),
              provider = (None :: unit option)\<rparr>))
     = PublicKey ''11111111111111111111111111111111''"
    using program_id_default [of "Some \<lparr>programId = Some (PublicKey ''11111111111111111111111111111111''),
              provider = (None :: unit option)\<rparr>" "()" "\<lambda>_. ()"]
    by simp
  from a b c show ?thesis by (intro conjI)
qed

end
